theory Spec2Isabelle
  imports Complex_Main
begin

section \<open>Numbers and the helpers of the maths library\<close>

text \<open>
  The simulation computes on JavaScript numbers. They are modelled as real numbers:
  every comparison, clamp and interpolation below is the one the source writes, read
  over \<^typ>\<open>real\<close>. \<open>Math.random()\<close> is not a function of the state, so every
  draw is an explicit argument of the model.

  Doubles round and reals do not. A sum such as \<open>this._age += dt\<close> is exact here, so a
  threshold that the source reaches by repeated rounded additions, or a timer that it
  counts down to zero, can be reached one frame later in the source than in the model.
  What a frame does is therefore stated over the fields of the state that the frame
  leaves, not over sums of steps.

  \<open>THREE.MathUtils.clamp(value, min, max)\<close> is \<open>Math.max(min, Math.min(max, value))\<close>
  and \<open>THREE.MathUtils.lerp(x, y, t)\<close> is \<open>(1 - t) * x + t * y\<close>.
\<close>

definition clamp :: "real \<Rightarrow> real \<Rightarrow> real \<Rightarrow> real" where
  "clamp v lo hi = max lo (min hi v)"

definition lerp :: "real \<Rightarrow> real \<Rightarrow> real \<Rightarrow> real" where
  "lerp x y t = (1 - t) * x + t * y"

section \<open>Tank environment\<close>

text \<open>The inner water rectangle, as the constructor of \<open>Aquarium\<close> derives it.\<close>

record aquarium =
  innerLeft :: real
  innerRight :: real
  innerBottom :: real
  innerTop :: real

definition Aquarium_new :: "real \<Rightarrow> real \<Rightarrow> aquarium" where
  "Aquarium_new width height =
     (let s = min width height;
          frameT = s * 0.028;
          inset = s * 0.012
      in \<lparr> innerLeft = - width / 2 + frameT + inset,
           innerRight = width / 2 - frameT - inset,
           innerBottom = - height / 2 + frameT + inset,
           innerTop = height / 2 - frameT - inset \<rparr>)"

record sand =
  bedH :: real

definition Sand_new :: "real \<Rightarrow> real \<Rightarrow> sand" where
  "Sand_new width height = \<lparr> bedH = height * 0.22 \<rparr>"

section \<open>Egg\<close>

text \<open>
  The fields of an \<open>Egg\<close> instance. \<open>e_gx\<close>, \<open>e_gy\<close>, \<open>e_gz\<close> are
  \<open>group.position\<close>, \<open>e_rotX\<close> and \<open>e_rotZ\<close> are \<open>group.rotation\<close>,
  \<open>e_scale\<close> is the scalar scale of the group. \<open>e_sparkles\<close> holds the rotation and
  the scale of the sparkle points, which only the full-mode mythical egg has.
  \<open>e_onHatch\<close> says whether a hatch callback is installed; \<open>e_popping\<close> says that
  the shrink-out started by \<open>_popAndDisposeSoon\<close> is running.
\<close>

datatype mode = Prototype | Full

record egg =
  e_eggType :: string
  e_mode :: mode
  e_worldW :: real
  e_worldH :: real
  e_aquarium :: "aquarium option"
  e_sand :: "sand option"
  e_onHatch :: bool
  e_x :: real
  e_y :: real
  e_vx :: real
  e_vy :: real
  e_phase :: real
  e_landed :: bool
  e_age :: real
  e_hatchAt :: real
  e_didHatch :: bool
  e_dead :: bool
  e_r :: real
  e_sandSinkFactor :: real
  e_xMin :: real
  e_xMax :: real
  e_yMin :: real
  e_yMax :: real
  e_sandTopY :: real
  e_gx :: real
  e_gy :: real
  e_gz :: real
  e_rotX :: real
  e_rotZ :: real
  e_scale :: real
  e_sparkles :: "(real \<times> real) option"
  e_popping :: bool

text \<open>\<open>Egg._applyPos\<close> and \<open>Egg._syncEnv\<close>.\<close>

definition Egg_applyPos :: "egg \<Rightarrow> egg" where
  "Egg_applyPos e = e\<lparr> e_gx := e_x e, e_gy := e_y e \<rparr>"

definition Egg_syncEnv :: "egg \<Rightarrow> egg" where
  "Egg_syncEnv e =
     (let w = e_worldW e;
          h = e_worldH e;
          e1 = (case e_aquarium e of
                  Some a \<Rightarrow> e\<lparr> e_xMin := innerLeft a + e_r e * 1.2,
                               e_xMax := innerRight a - e_r e * 1.2,
                               e_yMin := innerBottom a + e_r e * 1.2,
                               e_yMax := innerTop a - e_r e * 1.2 \<rparr>
                | None \<Rightarrow> e\<lparr> e_xMin := - w / 2 + 0.18 + e_r e,
                             e_xMax := w / 2 - 0.18 - e_r e,
                             e_yMin := - h / 2 + 0.16 + e_r e,
                             e_yMax := h / 2 - 0.16 - e_r e \<rparr>);
          bed = (case e_sand e of Some s \<Rightarrow> bedH s | None \<Rightarrow> h * 0.22)
      in e1\<lparr> e_sandTopY := - h / 2 + bed \<rparr>)"

text \<open>
  \<open>Egg.setEnvironment(worldW, worldH, aquarium, sand)\<close>: a missing aquarium or sand
  keeps the one the egg already has.
\<close>

definition Egg_setEnvironment ::
  "real \<Rightarrow> real \<Rightarrow> aquarium option \<Rightarrow> sand option \<Rightarrow> egg \<Rightarrow> egg" where
  "Egg_setEnvironment worldW worldH aq sd e =
     (let e1 = e\<lparr> e_worldW := worldW, e_worldH := worldH,
                  e_aquarium := (case aq of Some a \<Rightarrow> Some a | None \<Rightarrow> e_aquarium e),
                  e_sand := (case sd of Some s \<Rightarrow> Some s | None \<Rightarrow> e_sand e) \<rparr>;
          e2 = Egg_syncEnv e1;
          e3 = e2\<lparr> e_x := clamp (e_x e2) (e_xMin e2) (e_xMax e2) \<rparr>;
          e4 = e3\<lparr> e_y := clamp (e_y e3) (e_yMin e3) (e_yMax e3) \<rparr>
      in Egg_applyPos e4)"

text \<open>
  One call of the hatch callback: \<open>onHatch(this.eggType, this)\<close>; the callee reads the
  position of the egg's group.
\<close>

record hatch_call =
  hc_eggType :: string
  hc_x :: real
  hc_y :: real

definition hatch_call_of :: "egg \<Rightarrow> hatch_call" where
  "hatch_call_of e = \<lparr> hc_eggType = e_eggType e, hc_x = e_gx e, hc_y = e_gy e \<rparr>"

text \<open>
  \<open>Egg.update(dt, t)\<close>, returning the new egg and the hatch callbacks invoked by the
  call. The falling branch and the incubating branch are kept apart as in the source.
\<close>

definition Egg_fall :: "real \<Rightarrow> real \<Rightarrow> egg \<Rightarrow> egg" where
  "Egg_fall dt t e =
     (let swirl = 0.03 * sin ((t + e_phase e) * 0.9);
          vx1 = (e_vx e + swirl * dt) * (0.92 powr (dt * 60));
          vy1 = e_vy e * (0.94 powr (dt * 60)) - 0.028 * dt;
          x1 = e_x e + vx1;
          y1 = e_y e + vy1;
          x2 = (if x1 < e_xMin e then e_xMin e else x1);
          vx2 = (if x1 < e_xMin e then \<bar>vx1\<bar> * 0.55 else vx1);
          x3 = (if x2 > e_xMax e then e_xMax e else x2);
          vx3 = (if x2 > e_xMax e then - \<bar>vx2\<bar> * 0.55 else vx2);
          groundY = e_sandTopY e + e_r e * e_sandSinkFactor e;
          e1 = e\<lparr> e_x := x3, e_y := y1, e_vx := vx3, e_vy := vy1 \<rparr>;
          e2 = (if y1 \<le> groundY
                then e1\<lparr> e_y := groundY, e_landed := True, e_vy := 0,
                         e_vx := vx3 * 0.25, e_gy := groundY \<rparr>
                else e1);
          e3 = (if \<not> e_landed e2
                then e2\<lparr> e_rotZ := 0.10 * sin ((t + e_phase e) * 3.1),
                         e_rotX := 0.08 * sin ((t + e_phase e) * 2.4) \<rparr>
                else e2)
      in Egg_applyPos e3)"

definition Egg_incubate :: "real \<Rightarrow> egg \<Rightarrow> egg \<times> hatch_call list" where
  "Egg_incubate t e =
     (let wob = 0.20 * sin ((t + e_phase e) * 6.2);
          wob2 = 0.12 * sin ((t + e_phase e) * 11.0);
          jx = 0.0019 * sin ((t + e_phase e) * 17.0);
          jy = 0.0013 * cos ((t + e_phase e) * 13.0);
          e1 = e\<lparr> e_rotZ := wob + wob2 * 0.35, e_rotX := 0.10 * wob2,
                   e_gx := e_x e + jx, e_gy := e_y e + jy \<rparr>;
          e2 = (case e_sparkles e1 of
                  None \<Rightarrow> e1
                | Some _ \<Rightarrow> e1\<lparr> e_sparkles :=
                      Some (0.12 * sin ((t + e_phase e) * 1.7),
                            0.75 + 0.25 * sin ((t + e_phase e) * 2.3)) \<rparr>)
      in if \<not> e_didHatch e2 \<and> e_age e2 \<ge> e_hatchAt e2
         then (e2\<lparr> e_didHatch := True, e_popping := True \<rparr>,
               if e_onHatch e2 then [hatch_call_of e2] else [])
         else (e2, []))"

definition Egg_update :: "real \<Rightarrow> real \<Rightarrow> egg \<Rightarrow> egg \<times> hatch_call list" where
  "Egg_update dt t e =
     (if dt = 0 then (e, [])
      else if e_dead e then (e, [])
      else let e1 = e\<lparr> e_age := e_age e + dt \<rparr>
           in if \<not> e_landed e1 then (Egg_fall dt t e1, [])
              else Egg_incubate t e1)"

text \<open>
  One animation frame of the shrink-out started by \<open>_popAndDisposeSoon\<close>, \<open>elapsed\<close>
  milliseconds after its start: the group shrinks, and the frame that reaches 260 ms
  sets \<open>_dead\<close> and ends the animation.
\<close>

definition Egg_popTick :: "real \<Rightarrow> egg \<Rightarrow> egg" where
  "Egg_popTick elapsed e =
     (if \<not> e_popping e then e
      else let u = min 1 (elapsed / 260);
               fade = max 0 (1.0 - u);
               e1 = e\<lparr> e_scale := max 0.001 fade \<rparr>
           in if u < 1 then e1 else e1\<lparr> e_popping := False, e_dead := True \<rparr>)"

text \<open>
  Driving an egg with a list of frames \<open>(dt, t)\<close>: the final egg, and for every frame
  the callbacks it invoked.
\<close>

fun Egg_drive :: "egg \<Rightarrow> (real \<times> real) list \<Rightarrow> egg" where
  "Egg_drive e [] = e"
| "Egg_drive e (f # fs) = Egg_drive (fst (Egg_update (fst f) (snd f) e)) fs"

fun hatch_trace :: "egg \<Rightarrow> (real \<times> real) list \<Rightarrow> hatch_call list list" where
  "hatch_trace e [] = []"
| "hatch_trace e (f # fs) =
     snd (Egg_update (fst f) (snd f) e) # hatch_trace (fst (Egg_update (fst f) (snd f) e)) fs"


text \<open>
  The constructor of \<open>Egg\<close>. The draws of \<open>Math.random()\<close> it makes are the fields of
  \<open>egg_rand\<close>, in the order of the source: horizontal and vertical velocity, phase, hatch
  threshold, and the two draws of \<open>_spawnDefault\<close>.
\<close>

record egg_opts =
  o_eggType :: string
  o_mode :: "mode option"
  o_worldW :: real
  o_worldH :: real
  o_aquarium :: "aquarium option"
  o_sand :: "sand option"
  o_x :: "real option"
  o_y :: "real option"
  o_z :: "real option"
  o_onHatch :: bool

record egg_rand =
  r_vx :: real
  r_vy :: real
  r_phase :: real
  r_hatch :: real
  r_spawnX :: real
  r_spawnY :: real

definition Egg_spawnDefault :: "egg_rand \<Rightarrow> egg \<Rightarrow> egg" where
  "Egg_spawnDefault rnd e =
     e\<lparr> e_x := lerp (e_xMin e) (e_xMax e) (0.15 + 0.70 * r_spawnX rnd),
        e_y := e_yMax e - (0.10 + 0.05 * r_spawnY rnd) \<rparr>"

definition Egg_new :: "egg_opts \<Rightarrow> egg_rand \<Rightarrow> egg" where
  "Egg_new opts rnd =
     (let ty = (if o_eggType opts = [] then ''basic'' else o_eggType opts);
          md = (case o_mode opts of Some m \<Rightarrow> m | None \<Rightarrow> Full);
          e0 = \<lparr> e_eggType = ty, e_mode = md,
                 e_worldW = o_worldW opts, e_worldH = o_worldH opts,
                 e_aquarium = o_aquarium opts, e_sand = o_sand opts,
                 e_onHatch = o_onHatch opts,
                 e_x = (case o_x opts of Some x \<Rightarrow> x | None \<Rightarrow> 0),
                 e_y = (case o_y opts of Some y \<Rightarrow> y | None \<Rightarrow> 0),
                 e_vx = (r_vx rnd * 2 - 1) * 0.03,
                 e_vy = - 0.06 - r_vy rnd * 0.03,
                 e_phase = r_phase rnd * pi * 2,
                 e_landed = False, e_age = 0,
                 e_hatchAt = 7.5 + r_hatch rnd * 5.0,
                 e_didHatch = False, e_dead = False,
                 e_r = max 0.030 (min 0.048 (min (o_worldW opts) (o_worldH opts) * 0.021)),
                 e_sandSinkFactor = 0.38,
                 e_xMin = 0, e_xMax = 0, e_yMin = 0, e_yMax = 0, e_sandTopY = 0,
                 e_gx = 0, e_gy = 0,
                 e_gz = (case o_z opts of Some z \<Rightarrow> z | None \<Rightarrow> 0.88),
                 e_rotX = 0, e_rotZ = 0, e_scale = 1,
                 e_sparkles = (if md = Full \<and> ty = ''mythical'' then Some (0, 1) else None),
                 e_popping = False \<rparr>;
          e1 = Egg_syncEnv e0;
          e2 = (if o_x opts = None \<or> o_y opts = None then Egg_spawnDefault rnd e1 else e1)
      in Egg_applyPos e2)"

section \<open>Mode toggle: rebuilding the eggs\<close>

text \<open>
  The snapshot taken by \<open>rebuildEggVisualsForMode\<close>. Every captured field of an
  \<open>Egg\<close> is a number or a boolean, so the fallbacks of the source for a field of
  another type are never taken.
\<close>

record egg_snap =
  s_eggType :: string
  s_gx :: real
  s_gy :: real
  s_gz :: real
  s_x :: real
  s_y :: real
  s_vx :: real
  s_vy :: real
  s_phase :: real
  s_landed :: bool
  s_age :: real
  s_hatchAt :: real
  s_didHatch :: bool
  s_dead :: bool
  s_sandSinkFactor :: real
  s_onHatch :: bool

definition Egg_snapshot :: "egg \<Rightarrow> egg_snap" where
  "Egg_snapshot old =
     \<lparr> s_eggType = e_eggType old,
       s_gx = e_gx old, s_gy = e_gy old, s_gz = e_gz old,
       s_x = e_x old, s_y = e_y old, s_vx = e_vx old, s_vy = e_vy old,
       s_phase = e_phase old,
       s_landed = e_landed old, s_age = e_age old, s_hatchAt = e_hatchAt old,
       s_didHatch = e_didHatch old, s_dead = e_dead old,
       s_sandSinkFactor = e_sandSinkFactor old,
       s_onHatch = e_onHatch old \<rparr>"

text \<open>
  The body of the loop of \<open>rebuildEggVisualsForMode\<close> for one egg: snapshot, a new
  \<open>Egg\<close> in the current mode, the fields written back, then
  \<open>setEnvironment\<close> and \<open>_applyPos\<close>.
\<close>

definition rebuildEgg ::
  "mode \<Rightarrow> real \<Rightarrow> real \<Rightarrow> aquarium option \<Rightarrow> sand option \<Rightarrow> egg_rand \<Rightarrow> egg \<Rightarrow> egg" where
  "rebuildEgg md worldW worldH aq sd rnd old =
     (let snap = Egg_snapshot old;
          neu = Egg_new \<lparr> o_eggType = s_eggType snap, o_mode = Some md,
                          o_worldW = worldW, o_worldH = worldH,
                          o_aquarium = aq, o_sand = sd,
                          o_x = Some (s_gx snap), o_y = Some (s_gy snap),
                          o_z = Some (s_gz snap), o_onHatch = s_onHatch snap \<rparr> rnd;
          neu1 = neu\<lparr> e_x := s_x snap, e_y := s_y snap, e_vx := s_vx snap,
                       e_vy := s_vy snap, e_phase := s_phase snap,
                       e_landed := s_landed snap, e_age := s_age snap,
                       e_hatchAt := s_hatchAt snap, e_didHatch := s_didHatch snap,
                       e_dead := s_dead snap,
                       e_sandSinkFactor := s_sandSinkFactor snap \<rparr>
      in Egg_applyPos (Egg_setEnvironment worldW worldH aq sd neu1))"

text \<open>
  \<open>rebuildEggVisualsForMode\<close> over the list of eggs, each egg paired with the draws
  that the constructor of its replacement makes.
\<close>

definition rebuildEggVisualsForMode ::
  "mode \<Rightarrow> real \<Rightarrow> real \<Rightarrow> aquarium option \<Rightarrow> sand option \<Rightarrow> (egg \<times> egg_rand) list \<Rightarrow> egg list" where
  "rebuildEggVisualsForMode md worldW worldH aq sd ers =
     map (\<lambda>er. rebuildEgg md worldW worldH aq sd (snd er) (fst er)) ers"

section \<open>Bounds of the fish classes\<close>

text \<open>
  The rectangle \<open>(_xMin, _xMax, _yMin, _yMax)\<close> that \<open>_syncBounds\<close> of each full-mode
  class computes from the tank dimensions, the aquarium where the class keeps one, and
  the half-extents of the fish.
\<close>

definition CommonFish_rect ::
  "real \<Rightarrow> real \<Rightarrow> aquarium option \<Rightarrow> real \<Rightarrow> real \<Rightarrow> real \<times> real \<times> real \<times> real" where
  "CommonFish_rect w h aq halfW halfH =
     (let marginX = max (0.08 * w) 0.18;
          topMargin = max (0.10 * h) 0.16;
          sandBedH = h * 0.22;
          sandTopY = - h / 2 + sandBedH;
          sandMargin = max (0.08 * h) 0.12
      in (- w / 2 + marginX + halfW,
          w / 2 - marginX - halfW,
          sandTopY + sandMargin + halfH,
          (case aq of
             Some a \<Rightarrow> innerTop a - halfH
           | None \<Rightarrow> h / 2 - topMargin - halfH)))"

definition TropicalFish_rect :: "real \<Rightarrow> real \<Rightarrow> real \<Rightarrow> real \<Rightarrow> real \<times> real \<times> real \<times> real" where
  "TropicalFish_rect w h halfW halfH =
     (let marginX = max (0.08 * w) 0.18;
          topMargin = max (0.10 * h) 0.16;
          sandBedH = h * 0.22;
          sandTopY = - h / 2 + sandBedH;
          sandMargin = max (0.08 * h) 0.12
      in (- w / 2 + marginX + halfW,
          w / 2 - marginX - halfW,
          sandTopY + sandMargin + (0.06 * h) + halfH,
          h / 2 - topMargin - halfH))"

definition OrnamentalFish_rect :: "real \<Rightarrow> real \<Rightarrow> real \<Rightarrow> real \<times> real \<times> real \<times> real" where
  "OrnamentalFish_rect w h halfWidth =
     (let marginX = max (0.09 * w) 0.20;
          topMargin = max (0.11 * h) 0.18;
          sandTopY = - h / 2 + (h * 0.22);
          sandMargin = max (0.09 * h) 0.13
      in (- w / 2 + marginX + halfWidth,
          w / 2 - marginX - halfWidth,
          sandTopY + sandMargin + (0.08 * h),
          h / 2 - topMargin))"

definition DeepSeaCreature_rect :: "real \<Rightarrow> real \<Rightarrow> real \<times> real \<times> real \<times> real" where
  "DeepSeaCreature_rect w h =
     (let marginX = max (0.10 * w) 0.22;
          sandBedH = h * 0.22;
          sandTopY = - h / 2 + sandBedH;
          sandClearance = max (0.04 * h) 0.06;
          bandHeight = max (0.16 * h) 0.22;
          yMin = sandTopY + sandClearance
      in (- w / 2 + marginX, w / 2 - marginX, yMin, yMin + bandHeight))"

definition MythicalFish_rect ::
  "real \<Rightarrow> real \<Rightarrow> aquarium option \<Rightarrow> real \<Rightarrow> real \<Rightarrow> real \<times> real \<times> real \<times> real" where
  "MythicalFish_rect w h aq halfW halfH =
     (let marginX = max (0.10 * w) 0.22;
          topMargin = max (0.12 * h) 0.18;
          sandBedH = h * 0.22;
          sandTopY = - h / 2 + sandBedH;
          sandMargin = max (0.10 * h) 0.14;
          xMin = - w / 2 + marginX;
          xMax = w / 2 - marginX;
          yMin = sandTopY + sandMargin + (0.18 * h);
          yMax0 = (case aq of
                     Some a \<Rightarrow> innerTop a - topMargin - (0.04 * h)
                   | None \<Rightarrow> (h / 2) - topMargin - (0.04 * h));
          yMax = (if yMax0 < yMin + 0.16 then yMin + 0.16 else yMax0)
      in (xMin + halfW, xMax - halfW, yMin + halfH, yMax - halfH))"

definition SchoolingFish_rect ::
  "real \<Rightarrow> real \<Rightarrow> aquarium option \<Rightarrow> real \<Rightarrow> real \<Rightarrow> real \<times> real \<times> real \<times> real" where
  "SchoolingFish_rect w h aq halfW halfH =
     (let marginX = max (0.08 * w) 0.18;
          topBuffer = max (0.04 * h) 0.14;
          sandBedH = h * 0.22;
          sandTopY = - h / 2 + sandBedH;
          sandMargin = max (0.08 * h) 0.12
      in (- w / 2 + marginX + halfW,
          w / 2 - marginX - halfW,
          sandTopY + sandMargin + halfH,
          (case aq of
             Some a \<Rightarrow> innerTop a - topBuffer - halfH
           | None \<Rightarrow> (h / 2) - topBuffer - halfH)))"

text \<open>
  \<open>ReefFish._syncBounds\<close> as a function of the tank dimensions and the half-extents,
  giving \<open>(_xMin, _xMax, _yMin, _yMax)\<close>.
\<close>

definition ReefFish_syncBounds :: "real \<Rightarrow> real \<Rightarrow> real \<Rightarrow> real \<Rightarrow> real \<times> real \<times> real \<times> real" where
  "ReefFish_syncBounds w h halfW halfH =
     (let marginX = max (0.10 * w) 0.22;
          topMargin = max (0.12 * h) 0.18;
          sandBedH = h * 0.22;
          sandTopY = - h / 2 + sandBedH;
          sandMargin = max (0.10 * h) 0.14;
          xMin = - w / 2 + marginX;
          xMax = w / 2 - marginX;
          yMin = sandTopY + sandMargin + (0.06 * h);
          yMax0 = h / 2 - topMargin - (0.22 * h);
          yMax = (if yMax0 < yMin + 0.15 then yMin + 0.15 else yMax0);
          lo = yMin + halfH;
          hi = yMax - halfH
      in if hi < lo
         then (xMin + halfW, xMax - halfW, (lo + hi) * 0.5 - 0.05, (lo + hi) * 0.5 + 0.05)
         else (xMin + halfW, xMax - halfW, lo, hi))"

section \<open>Hatched fish as the main loop sees them\<close>

text \<open>
  The main program treats a fish object by the fields it finds on it: every class has
  \<open>_x\<close>, \<open>_y\<close>, \<open>_phase\<close>, \<open>_yMin\<close>, \<open>_yMax\<close> and \<open>_bobAmp\<close>;
  \<open>PrimitiveFish\<close> and \<open>SchoolingFish\<close> have \<open>_vx\<close> and \<open>_vy\<close>; every class but
  \<open>SchoolingFish\<close> has \<open>_dir\<close>; every class but \<open>PrimitiveFish\<close> has \<open>_xMin\<close> and
  \<open>_xMax\<close>; only \<open>CommonFish\<close> has the spawn lock. A field that a class does not
  have is \<open>None\<close>, and \<open>typeof obj._vx === "number"\<close> is \<open>f_vx obj \<noteq> None\<close>.
  \<open>f_aquarium\<close> is \<open>this.aquarium\<close> of the classes that keep one. \<open>f_gx\<close>,
  \<open>f_gy\<close>, \<open>f_gz\<close> are \<open>group.position\<close>; \<open>f_root\<close> is the scale of \<open>_root\<close> once
  a root exists. The model of a full-mode fish is loaded asynchronously; the arrival of
  a model is not part of this development, so a full-mode object has no root and the
  half-extents its constructor set. Orientation, speeds, materials and animation mixers
  are left out.
\<close>

datatype fish_class =
  PrimitiveFish | CommonFish | SchoolingFish | TropicalFish | ReefFish
  | OrnamentalFish | DeepSeaCreature | MythicalFish

record fish_obj =
  f_class :: fish_class
  f_aquarium :: "aquarium option"
  f_x :: "real option"
  f_y :: "real option"
  f_vx :: "real option"
  f_vy :: "real option"
  f_dir :: "real option"
  f_phase :: "real option"
  f_xMin :: "real option"
  f_xMax :: "real option"
  f_yMin :: real
  f_yMax :: real
  f_bobAmp :: real
  f_spawnLocked :: "bool option"
  f_spawnLockTime :: "real option"
  f_gx :: real
  f_gy :: real
  f_gz :: real
  f_root :: "(real \<times> real \<times> real) option"
  f_fishId :: "nat option"

text \<open>
  \<open>_syncBounds\<close> on such an object, for a tank of \<open>w\<close> by \<open>h\<close>: the rectangle of
  the class with the half-extents of its constructor, and the bob amplitude where
  \<open>_syncBounds\<close> sets it. \<open>PrimitiveFish\<close> has no \<open>_syncBounds\<close>; its constructor and
  its \<open>setBounds\<close> compute \<open>_yMin\<close> and \<open>_yMax\<close> themselves.
\<close>

definition set_rect :: "real \<times> real \<times> real \<times> real \<Rightarrow> fish_obj \<Rightarrow> fish_obj" where
  "set_rect r obj =
     (case r of
        (xMin, xMax, yMin, yMax) \<Rightarrow>
          obj\<lparr> f_xMin := Some xMin, f_xMax := Some xMax, f_yMin := yMin, f_yMax := yMax \<rparr>)"

definition Fish_syncBounds :: "real \<Rightarrow> real \<Rightarrow> fish_obj \<Rightarrow> fish_obj" where
  "Fish_syncBounds w h obj =
     (case f_class obj of
        PrimitiveFish \<Rightarrow> obj
      | CommonFish \<Rightarrow>
          (set_rect (CommonFish_rect w h (f_aquarium obj) 0.12 0.08) obj)
            \<lparr> f_bobAmp := clamp (h * 0.012) 0.018 0.045 \<rparr>
      | SchoolingFish \<Rightarrow> set_rect (SchoolingFish_rect w h (f_aquarium obj) 0.12 0.08) obj
      | TropicalFish \<Rightarrow>
          (set_rect (TropicalFish_rect w h 0.12 0.08) obj)
            \<lparr> f_bobAmp := clamp (h * 0.013) 0.020 0.050 \<rparr>
      | ReefFish \<Rightarrow> set_rect (ReefFish_syncBounds w h 0.16 0.10) obj
      | OrnamentalFish \<Rightarrow> set_rect (OrnamentalFish_rect w h 0.18) obj
      | DeepSeaCreature \<Rightarrow>
          (set_rect (DeepSeaCreature_rect w h) obj)
            \<lparr> f_bobAmp := clamp (h * 0.016) 0.025 0.050 \<rparr>
      | MythicalFish \<Rightarrow> set_rect (MythicalFish_rect w h (f_aquarium obj) 0.16 0.10) obj)"

definition Primitive_yBounds :: "real \<Rightarrow> fish_obj \<Rightarrow> fish_obj" where
  "Primitive_yBounds h obj =
     obj\<lparr> f_yMin := (case f_aquarium obj of
                        Some a \<Rightarrow> innerBottom a + 0.18
                      | None \<Rightarrow> - h / 2 + 0.20),
          f_yMax := (case f_aquarium obj of
                        Some a \<Rightarrow> innerTop a - 0.12
                      | None \<Rightarrow> h / 2 - 0.12) \<rparr>"

text \<open>
  \<open>_clampToBounds\<close>. \<open>ReefFish\<close>, \<open>MythicalFish\<close> and \<open>SchoolingFish\<close> also move
  the group there, and so does \<open>setBounds\<close> of \<open>OrnamentalFish\<close>, which clamps in
  place.
\<close>

definition Fish_clampToBounds :: "fish_obj \<Rightarrow> fish_obj" where
  "Fish_clampToBounds obj =
     (case (f_x obj, f_y obj, f_xMin obj, f_xMax obj) of
        (Some x, Some y, Some xMin, Some xMax) \<Rightarrow>
          (let x1 = clamp x xMin xMax;
               y1 = clamp y (f_yMin obj) (f_yMax obj);
               o1 = obj\<lparr> f_x := Some x1, f_y := Some y1 \<rparr>
           in if f_class obj = ReefFish \<or> f_class obj = MythicalFish
                 \<or> f_class obj = SchoolingFish \<or> f_class obj = OrnamentalFish
              then o1\<lparr> f_gx := x1, f_gy := y1 \<rparr>
              else o1)
      | _ \<Rightarrow> obj)"

text \<open>
  \<open>setBounds(width, height, aquarium)\<close>. \<open>PrimitiveFish\<close> recomputes its vertical
  bounds and clamps nothing; its \<open>update\<close> does the clamping. Every other class
  recomputes its rectangle and clamps \<open>_x\<close> and \<open>_y\<close> into it; \<open>CommonFish\<close>,
  \<open>MythicalFish\<close> and \<open>SchoolingFish\<close> take the aquarium when one is passed, the
  other classes ignore the third argument. The \<open>_rescaleToView\<close> that ends
  \<open>setBounds\<close> returns at once while no model is loaded. What \<open>SchoolingFish\<close>
  writes to its school is no field of the object and is left out here.
\<close>

definition Fish_setBounds :: "real \<Rightarrow> real \<Rightarrow> aquarium option \<Rightarrow> fish_obj \<Rightarrow> fish_obj" where
  "Fish_setBounds w h aq obj =
     (if f_class obj = PrimitiveFish
      then Primitive_yBounds h
             (obj\<lparr> f_aquarium := (case aq of Some a \<Rightarrow> Some a | None \<Rightarrow> f_aquarium obj) \<rparr>)
      else let o1 = (if f_class obj = CommonFish \<or> f_class obj = MythicalFish
                        \<or> f_class obj = SchoolingFish
                     then obj\<lparr> f_aquarium :=
                                (case aq of Some a \<Rightarrow> Some a | None \<Rightarrow> f_aquarium obj) \<rparr>
                     else obj)
           in Fish_clampToBounds (Fish_syncBounds w h o1))"

text \<open>
  What a constructor leaves in these fields. The draws of \<open>Math.random()\<close> are the
  fields of \<open>fish_init\<close>: the side and the speed of a \<open>PrimitiveFish\<close> (the side is
  also the draw for \<open>_dir\<close> of a patrolling class), the two velocity draws, the phase,
  the bob amplitude of a \<open>SchoolingFish\<close>, and the two draws of
  \<open>_spawnInitialPosition\<close>.
\<close>

record fish_init =
  i_side :: real
  i_speed :: real
  i_vx :: real
  i_vy :: real
  i_phase :: real
  i_bob :: real
  i_spawnX :: real
  i_spawnY :: real

text \<open>\<open>PrimitiveFish._applyFacingNow\<close>, on the scale of the root.\<close>

definition Primitive_applyFacingNow :: "fish_obj \<Rightarrow> fish_obj" where
  "Primitive_applyFacingNow obj =
     (case f_root obj of
        None \<Rightarrow> obj
      | Some (sx, sy, sz) \<Rightarrow>
          (let sign = (case f_dir obj of
                         Some d \<Rightarrow> (if d \<ge> 0 then - 1 else 1)
                       | None \<Rightarrow> 1)
           in obj\<lparr> f_root := Some (\<bar>sx\<bar> * sign, - \<bar>sy\<bar>, sz) \<rparr>))"

definition PrimitiveFish_new ::
  "real \<Rightarrow> real \<Rightarrow> aquarium option \<Rightarrow> real option \<Rightarrow> fish_init \<Rightarrow> fish_obj" where
  "PrimitiveFish_new w h aq zLayer ini =
     (let vx = (if i_side ini < 0.5 then - 1 else 1) * (0.12 + i_speed ini * 0.10);
          z = (case zLayer of Some v \<Rightarrow> v | None \<Rightarrow> 0.0)
      in Primitive_applyFacingNow
           (Primitive_yBounds h
              \<lparr> f_class = PrimitiveFish,
                f_aquarium = aq,
                f_x = Some 0, f_y = Some 0,
                f_vx = Some vx, f_vy = Some (i_vy ini * 0.06 - 0.03),
                f_dir = Some (if vx \<ge> 0 then 1 else - 1),
                f_phase = Some (i_phase ini * pi * 2),
                f_xMin = None, f_xMax = None, f_yMin = 0, f_yMax = 0,
                f_bobAmp = 0.020,
                f_spawnLocked = None, f_spawnLockTime = None,
                f_gx = 0, f_gy = 0, f_gz = 1.15 + z,
                f_root = Some (1, - 1, 1),
                f_fishId = None \<rparr>))"

text \<open>
  The patrolling classes (\<open>CommonFish\<close>, \<open>TropicalFish\<close>, \<open>ReefFish\<close>,
  \<open>OrnamentalFish\<close>, \<open>DeepSeaCreature\<close>, \<open>MythicalFish\<close>) keep a direction and no
  velocity. Their constructors differ in the constants below: the bob amplitude before
  \<open>_syncBounds\<close>, the default of \<open>zLayer\<close>, and the fractions of
  \<open>_spawnInitialPosition\<close> (the last line of each table is \<open>MythicalFish\<close>). Of
  them only \<open>ReefFish\<close> and \<open>MythicalFish\<close> move the group to the spawn position.
\<close>

definition PatrolFish_bobAmp :: "fish_class \<Rightarrow> real" where
  "PatrolFish_bobAmp cls =
     (if cls = CommonFish then 0.03
      else if cls = TropicalFish then 0.036
      else if cls = ReefFish then 0.022
      else if cls = OrnamentalFish then 0.03
      else if cls = DeepSeaCreature then 0.050
      else 0.030)"

definition spawnFractions :: "fish_class \<Rightarrow> real \<Rightarrow> real \<Rightarrow> real \<times> real" where
  "spawnFractions cls rx ry =
     (if cls = CommonFish then (0.25 + 0.5 * rx, 0.20 + 0.6 * ry)
      else if cls = SchoolingFish then (0.25 + 0.5 * rx, 0.25 + 0.55 * ry)
      else if cls = TropicalFish then (0.25 + 0.5 * rx, 0.30 + 0.55 * ry)
      else if cls = ReefFish then (0.15 + 0.70 * rx, 0.15 + 0.70 * ry)
      else if cls = OrnamentalFish then (0.3 + 0.4 * rx, 0.6 + 0.3 * ry)
      else if cls = DeepSeaCreature then (0.25 + 0.5 * rx, 0.28 + 0.55 * ry)
      else (0.20 + 0.60 * rx, 0.20 + 0.60 * ry))"

definition spawnInitialPosition :: "fish_init \<Rightarrow> fish_obj \<Rightarrow> fish_obj" where
  "spawnInitialPosition ini obj =
     (case (f_xMin obj, f_xMax obj) of
        (Some xMin, Some xMax) \<Rightarrow>
          (let fr = spawnFractions (f_class obj) (i_spawnX ini) (i_spawnY ini);
               x = lerp xMin xMax (fst fr);
               y = lerp (f_yMin obj) (f_yMax obj) (snd fr);
               o1 = obj\<lparr> f_x := Some x, f_y := Some y \<rparr>
           in if f_class obj = ReefFish \<or> f_class obj = MythicalFish
                 \<or> f_class obj = SchoolingFish
              then o1\<lparr> f_gx := x, f_gy := y \<rparr>
              else o1)
      | _ \<Rightarrow> obj)"

definition PatrolFish_new ::
  "fish_class \<Rightarrow> real \<Rightarrow> real \<Rightarrow> aquarium option \<Rightarrow> real option \<Rightarrow> fish_init \<Rightarrow> fish_obj" where
  "PatrolFish_new cls w h aq zLayer ini =
     (let z = (case zLayer of
                 Some v \<Rightarrow> v
               | None \<Rightarrow> (if cls = OrnamentalFish then 0.04 else 0.0));
          o0 = \<lparr> f_class = cls,
                 f_aquarium = (if cls = CommonFish \<or> cls = MythicalFish then aq else None),
                 f_x = Some 0, f_y = Some 0,
                 f_vx = None, f_vy = None,
                 f_dir = Some (if i_side ini < 0.5 then 1 else - 1),
                 f_phase = Some (i_phase ini * pi * 2),
                 f_xMin = Some (- 1), f_xMax = Some 1, f_yMin = - 1, f_yMax = 1,
                 f_bobAmp = PatrolFish_bobAmp cls,
                 f_spawnLocked = (if cls = CommonFish then Some True else None),
                 f_spawnLockTime = (if cls = CommonFish then Some 0.35 else None),
                 f_gx = 0, f_gy = 0, f_gz = 1.15 + z,
                 f_root = None,
                 f_fishId = None \<rparr>
      in spawnInitialPosition ini (Fish_syncBounds w h o0))"

text \<open>
  \<open>SchoolingFish\<close> keeps a velocity and no direction (its \<open>_faceDir\<close> is orientation);
  \<open>_spawnInitialPosition\<close> also draws the velocity. The school that the constructor
  registers is the subject of the section on schools and no field of the object.
\<close>

definition SchoolingFish_new_obj ::
  "real \<Rightarrow> real \<Rightarrow> aquarium option \<Rightarrow> real option \<Rightarrow> fish_init \<Rightarrow> fish_obj" where
  "SchoolingFish_new_obj w h aq zLayer ini =
     (let z = (case zLayer of Some v \<Rightarrow> v | None \<Rightarrow> 0.0);
          o0 = \<lparr> f_class = SchoolingFish,
                 f_aquarium = aq,
                 f_x = Some 0, f_y = Some 0,
                 f_vx = Some 0, f_vy = Some 0,
                 f_dir = None,
                 f_phase = Some (i_phase ini * pi * 2),
                 f_xMin = Some (- 1), f_xMax = Some 1, f_yMin = - 1, f_yMax = 1,
                 f_bobAmp = 0.018 + 0.008 * i_bob ini,
                 f_spawnLocked = None, f_spawnLockTime = None,
                 f_gx = 0, f_gy = 0, f_gz = 1.15 + z,
                 f_root = None,
                 f_fishId = None \<rparr>
      in (spawnInitialPosition ini (Fish_syncBounds w h o0))
           \<lparr> f_vx := Some ((i_vx ini * 2 - 1) * 0.12),
             f_vy := Some ((i_vy ini * 2 - 1) * 0.06) \<rparr>)"

definition Fish_new ::
  "fish_class \<Rightarrow> real \<Rightarrow> real \<Rightarrow> aquarium option \<Rightarrow> real option \<Rightarrow> fish_init \<Rightarrow> fish_obj" where
  "Fish_new cls w h aq zLayer ini =
     (if cls = PrimitiveFish then PrimitiveFish_new w h aq zLayer ini
      else if cls = SchoolingFish then SchoolingFish_new_obj w h aq zLayer ini
      else PatrolFish_new cls w h aq zLayer ini)"

text \<open>
  The entry of \<open>hatchFish\<close> for one fish, and the part of the hatch table
  (\<open>spec\<close>) that the rebuild reads.
\<close>

record fish_spec =
  sp_kind :: string
  sp_url :: string
  sp_zLayer :: "real option"

record hatch_fish =
  hf_id :: nat
  hf_eggType :: string
  hf_obj :: "fish_obj option"
  hf_spec :: "fish_spec option"
  hf_bornAt :: real
  hf_growDur :: real
  hf_startF :: real
  hf_endF :: real
  hf_adultRootScale :: "real option"
  hf_baseX :: real
  hf_baseY :: real
  hf_liftDur :: real
  hf_liftDist :: real
  hf_liftStart :: "real option"
  hf_liftDone :: bool
  hf_settleUntil :: "real option"
  hf_settleExtra :: real
  hf_modelUrl :: string
  hf_displayName :: string

definition growthDurationForEggType :: "string \<Rightarrow> real" where
  "growthDurationForEggType eggType =
     (if eggType = ''basic'' then 10.0
      else if eggType = ''schooling'' then 30.0
      else if eggType = ''tropical'' then 60.0
      else if eggType = ''saltwater'' then 60.0
      else if eggType = ''ornamental'' then 60.0
      else if eggType = ''deepsea'' then 180.0
      else if eggType = ''mythical'' then 300.0
      else 60.0)"

text \<open>
  \<open>clampYForFish\<close>: every class has \<open>_yMin\<close>, \<open>_yMax\<close> and \<open>_bobAmp\<close>, so the
  branch that uses the bounds of the fish is the one taken.
\<close>

definition clampYForFish :: "fish_obj \<Rightarrow> real \<Rightarrow> real" where
  "clampYForFish obj y =
     clamp y (f_yMin obj + \<bar>f_bobAmp obj\<bar>) (f_yMax obj - \<bar>f_bobAmp obj\<bar>)"

text \<open>
  What \<open>spawnHatchFish\<close> does with the object it has built, at time \<open>now\<close> for an egg
  that hatched at \<open>(x, y)\<close>: the object is placed at \<open>x\<close> and the clamped \<open>y\<close>,
  tagged with the fish id, and pushed in a new record.
\<close>

definition spawnHatchFish_entry ::
  "nat \<Rightarrow> string \<Rightarrow> fish_obj \<Rightarrow> fish_spec \<Rightarrow> string \<Rightarrow> real \<Rightarrow> real \<Rightarrow> real \<Rightarrow> hatch_fish" where
  "spawnHatchFish_entry fishId eggType obj spec displayName now x y =
     (let baseX = x;
          baseY = clampYForFish obj y;
          o1 = (if f_x obj \<noteq> None then obj\<lparr> f_x := Some baseX \<rparr> else obj);
          o2 = (if f_y o1 \<noteq> None then o1\<lparr> f_y := Some baseY \<rparr> else o1);
          o3 = o2\<lparr> f_gx := baseX, f_gy := baseY, f_fishId := Some fishId \<rparr>
      in \<lparr> hf_id = fishId, hf_eggType = eggType,
           hf_obj = Some o3, hf_spec = Some spec,
           hf_bornAt = now, hf_growDur = growthDurationForEggType eggType,
           hf_startF = 0.14, hf_endF = 1.0, hf_adultRootScale = None,
           hf_baseX = baseX, hf_baseY = baseY,
           hf_liftDur = 2.2, hf_liftDist = 0.22, hf_liftStart = None, hf_liftDone = False,
           hf_settleUntil = None, hf_settleExtra = 0.35,
           hf_modelUrl = sp_url spec, hf_displayName = displayName \<rparr>)"

section \<open>Growth\<close>

text \<open>
  The growth step of \<open>loop\<close> at time \<open>t\<close>: the fraction \<open>f\<close> of the growth
  duration that has passed, its cubic smoothstep, and the interpolated scale fraction
  \<open>s\<close>; then the scale written to the root.
\<close>

definition growthFraction :: "real \<Rightarrow> hatch_fish \<Rightarrow> real" where
  "growthFraction t hf = clamp ((t - hf_bornAt hf) / hf_growDur hf) 0 1"

definition smoothstep :: "real \<Rightarrow> real" where
  "smoothstep f = f * f * (3 - 2 * f)"

definition growthScale :: "real \<Rightarrow> hatch_fish \<Rightarrow> real" where
  "growthScale t hf = lerp (hf_startF hf) (hf_endF hf) (smoothstep (growthFraction t hf))"

definition setRootScale :: "real \<Rightarrow> fish_obj \<Rightarrow> fish_obj" where
  "setRootScale v obj =
     (case f_root obj of
        None \<Rightarrow> obj
      | Some (x, y, z) \<Rightarrow>
          (let sx = (if x < 0 then - 1 else 1);
               sy = (if y < 0 then - 1 else 1)
           in obj\<lparr> f_root := Some (v * sx, v * sy, v) \<rparr>))"

definition loop_growth :: "real \<Rightarrow> hatch_fish \<Rightarrow> hatch_fish" where
  "loop_growth t hf =
     (case hf_obj hf of
        None \<Rightarrow> hf
      | Some obj \<Rightarrow>
          (let hf1 = (case (hf_adultRootScale hf, f_root obj) of
                        (None, Some (x, y, z)) \<Rightarrow> hf\<lparr> hf_adultRootScale := Some \<bar>x\<bar> \<rparr>
                      | _ \<Rightarrow> hf);
               baseScale = (case hf_adultRootScale hf1 of Some b \<Rightarrow> b | None \<Rightarrow> 1);
               s = growthScale t hf1
           in hf1\<lparr> hf_obj := Some (setRootScale (baseScale * s) obj) \<rparr>))"

definition retargetGrowthForMode :: "real \<Rightarrow> hatch_fish \<Rightarrow> hatch_fish" where
  "retargetGrowthForMode now hf =
     (case hf_obj hf of
        None \<Rightarrow> hf
      | Some obj \<Rightarrow>
          (let hf1 = hf\<lparr> hf_startF := 0.14, hf_endF := 1.0, hf_adultRootScale := None \<rparr>
           in case f_root obj of
                None \<Rightarrow> hf1
              | Some (x, y, z) \<Rightarrow>
                  hf1\<lparr> hf_obj := Some (setRootScale (\<bar>x\<bar> * growthScale now hf1) obj) \<rparr>))"

section \<open>Sell list\<close>

text \<open>
  \<open>sellPriceForEggType\<close> over the egg prices of \<open>shopData\<close>, and
  \<open>rebuildSellList\<close>. Of an item of the list the model keeps the fish id, the egg
  type, the name and the price; the description and the thumbnail key are presentation.
  The factor of the price is the double that the literal \<open>1.12\<close> denotes, a little
  above \<open>1.12\<close>: it is what makes the 150 coins of the deep-sea egg sell at 169 and not
  at 168. For every price of the table the ceiling of the exact product is the ceiling of
  the rounded one.
\<close>

definition sellFactor :: real where
  "sellFactor = 1261007895663739 / 1125899906842624"

definition shopData_eggs :: "(string \<times> real) list" where
  "shopData_eggs =
     [(''basic'', 0), (''schooling'', 35), (''tropical'', 45), (''saltwater'', 60),
      (''ornamental'', 120), (''deepsea'', 150), (''mythical'', 190)]"

definition sellPriceForEggType :: "string \<Rightarrow> real" where
  "sellPriceForEggType eggType =
     (let base = (case map_of shopData_eggs eggType of Some p \<Rightarrow> p | None \<Rightarrow> 0)
      in if base \<le> 0 then 5 else of_int \<lceil>base * sellFactor\<rceil>)"

record sell_item =
  si_fishId :: nat
  si_eggType :: string
  si_name :: string
  si_price :: real

fun rebuildSellList :: "real \<Rightarrow> hatch_fish list \<Rightarrow> sell_item list" where
  "rebuildSellList now [] = []"
| "rebuildSellList now (hf # rest) =
     (if hf_obj hf = None then rebuildSellList now rest
      else if now - hf_bornAt hf < hf_growDur hf then rebuildSellList now rest
      else \<lparr> si_fishId = hf_id hf, si_eggType = hf_eggType hf,
             si_name = (if hf_displayName hf = [] then ''adult fish'' else hf_displayName hf),
             si_price = sellPriceForEggType (hf_eggType hf) \<rparr>
           # rebuildSellList now rest)"


text \<open>The two guards of the loop of \<open>rebuildSellList\<close> that an entry must pass.\<close>

definition adult :: "real \<Rightarrow> hatch_fish \<Rightarrow> bool" where
  "adult now hf = (hf_obj hf \<noteq> None \<and> \<not> now - hf_bornAt hf < hf_growDur hf)"

section \<open>Mode toggle: rebuilding the hatched fish\<close>

text \<open>
  The snapshot of \<open>rebuildHatchedVisualsForMode\<close>. A field the old object does not
  have is replaced by the source's default: the group position for \<open>_x\<close> and
  \<open>_y\<close>, \<open>0\<close> for a velocity, \<open>1\<close> for the direction and a fresh draw for the
  phase.
\<close>

record fish_snap =
  fs_gx :: real
  fs_gy :: real
  fs_gz :: real
  fs_x :: real
  fs_y :: real
  fs_hasVx :: bool
  fs_hasVy :: bool
  fs_vx :: real
  fs_vy :: real
  fs_dir :: real
  fs_phase :: real

definition Fish_snapshot :: "real \<Rightarrow> fish_obj \<Rightarrow> fish_snap" where
  "Fish_snapshot rndPhase obj =
     \<lparr> fs_gx = f_gx obj, fs_gy = f_gy obj, fs_gz = f_gz obj,
       fs_x = (case f_x obj of Some v \<Rightarrow> v | None \<Rightarrow> f_gx obj),
       fs_y = (case f_y obj of Some v \<Rightarrow> v | None \<Rightarrow> f_gy obj),
       fs_hasVx = (f_vx obj \<noteq> None),
       fs_hasVy = (f_vy obj \<noteq> None),
       fs_vx = (case f_vx obj of Some v \<Rightarrow> v | None \<Rightarrow> 0),
       fs_vy = (case f_vy obj of Some v \<Rightarrow> v | None \<Rightarrow> 0),
       fs_dir = (case f_dir obj of Some d \<Rightarrow> d | None \<Rightarrow> 1),
       fs_phase = (case f_phase obj of Some p \<Rightarrow> p | None \<Rightarrow> rndPhase * pi * 2) \<rparr>"

definition class_of_kind :: "string \<Rightarrow> fish_class option" where
  "class_of_kind kind =
     (if kind = ''common'' then Some CommonFish
      else if kind = ''school'' then Some SchoolingFish
      else if kind = ''trop'' then Some TropicalFish
      else if kind = ''reef'' then Some ReefFish
      else if kind = ''orn'' then Some OrnamentalFish
      else if kind = ''deep'' then Some DeepSeaCreature
      else if kind = ''myth'' then Some MythicalFish
      else None)"

text \<open>Writing the snapshot into the new object, field by field as the source does.\<close>

definition Fish_restore :: "fish_snap \<Rightarrow> fish_obj \<Rightarrow> fish_obj" where
  "Fish_restore snap obj =
     (let o1 = (if f_x obj \<noteq> None then obj\<lparr> f_x := Some (fs_x snap) \<rparr> else obj);
          o2 = (if f_y o1 \<noteq> None then o1\<lparr> f_y := Some (fs_y snap) \<rparr> else o1);
          o3 = (if fs_hasVx snap \<and> f_vx o2 \<noteq> None then o2\<lparr> f_vx := Some (fs_vx snap) \<rparr> else o2);
          o4 = (if fs_hasVy snap \<and> f_vy o3 \<noteq> None then o3\<lparr> f_vy := Some (fs_vy snap) \<rparr> else o3);
          o5 = (if f_dir o4 \<noteq> None then o4\<lparr> f_dir := Some (fs_dir snap) \<rparr> else o4);
          o6 = (if f_phase o5 \<noteq> None then o5\<lparr> f_phase := Some (fs_phase snap) \<rparr> else o5);
          o7 = (if f_class o6 = PrimitiveFish
                then (case f_vx o6 of
                        Some vx \<Rightarrow> o6\<lparr> f_dir := Some (if vx \<ge> 0 then 1 else - 1) \<rparr>
                      | None \<Rightarrow> o6)
                else o6);
          o8 = o7\<lparr> f_gx := fs_gx snap, f_gy := fs_gy snap, f_gz := fs_gz snap \<rparr>
      in if f_class o8 = PrimitiveFish then Primitive_applyFacingNow o8 else o8)"

text \<open>
  The body of the loop of \<open>rebuildHatchedVisualsForMode\<close> for one entry, at clock
  time \<open>now\<close>, in a tank of \<open>w\<close> by \<open>h\<close> with aquarium \<open>aq\<close>. An entry whose
  kind names no class keeps its old object.
\<close>

definition rebuildHatched ::
  "mode \<Rightarrow> real \<Rightarrow> real \<Rightarrow> aquarium option \<Rightarrow> real \<Rightarrow> fish_init \<Rightarrow> real \<Rightarrow> hatch_fish \<Rightarrow> hatch_fish" where
  "rebuildHatched md w h aq now ini rndPhase hf =
     (case hf_obj hf of
        None \<Rightarrow> hf
      | Some old \<Rightarrow>
          (let snap = Fish_snapshot rndPhase old;
               z = (case hf_spec hf of
                      None \<Rightarrow> None
                    | Some sp \<Rightarrow> sp_zLayer sp);
               cls = (if md = Prototype then Some PrimitiveFish
                      else (case hf_spec hf of
                              None \<Rightarrow> None
                            | Some sp \<Rightarrow> class_of_kind (sp_kind sp)))
           in case cls of
                None \<Rightarrow> hf
              | Some c \<Rightarrow>
                  (let obj = (Fish_new c w h aq z ini)\<lparr> f_fishId := Some (hf_id hf) \<rparr>
                   in retargetGrowthForMode now
                        (hf\<lparr> hf_obj := Some (Fish_restore snap obj) \<rparr>))))"

text \<open>
  \<open>rebuildHatchedVisualsForMode\<close> over the list, each entry paired with the draws of
  the constructor of its new object and the draw of the snapshot's phase default.
\<close>

definition rebuildHatchedVisualsForMode ::
  "mode \<Rightarrow> real \<Rightarrow> real \<Rightarrow> aquarium option \<Rightarrow> real
     \<Rightarrow> (hatch_fish \<times> fish_init \<times> real) list \<Rightarrow> hatch_fish list" where
  "rebuildHatchedVisualsForMode md w h aq now hs =
     map (\<lambda>p. rebuildHatched md w h aq now (fst (snd p)) (snd (snd p)) (fst p)) hs"

section \<open>The program state: scene, mode toggle, resize, hatching\<close>

text \<open>
  The module-level variables of the main program that the functions below read and
  write. Decorations and feed are left out. At load the mode is the prototype mode, the
  world is 2 by 2, \<open>_lastWorldH\<close> is 2, and there is neither egg nor fish.
\<close>

record app =
  a_mode :: mode
  a_worldW :: real
  a_worldH :: real
  a_lastWorldH :: real
  a_aquarium :: "aquarium option"
  a_sand :: "sand option"
  a_eggs :: "egg list"
  a_hatchFish :: "hatch_fish list"
  a_fishIdCounter :: nat

definition app_start :: app where
  "app_start =
     \<lparr> a_mode = Prototype, a_worldW = 2, a_worldH = 2, a_lastWorldH = 2,
       a_aquarium = None, a_sand = None, a_eggs = [], a_hatchFish = [],
       a_fishIdCounter = 1 \<rparr>"

text \<open>
  \<open>hf.obj.setBounds(worldW, worldH, aquarium)\<close> on an entry, and \<open>rebuildScene\<close> at
  clock time \<open>now\<close>. The draws of the constructors are given per index: \<open>er i\<close> for
  the egg at index \<open>i\<close>, \<open>fr i\<close> for the fish at index \<open>i\<close> (with the draw of the
  snapshot's phase default).
\<close>

definition hatch_setBounds :: "real \<Rightarrow> real \<Rightarrow> aquarium option \<Rightarrow> hatch_fish \<Rightarrow> hatch_fish" where
  "hatch_setBounds w h aq hf =
     (case hf_obj hf of
        None \<Rightarrow> hf
      | Some obj \<Rightarrow> hf\<lparr> hf_obj := Some (Fish_setBounds w h aq obj) \<rparr>)"

definition rebuildScene ::
  "(nat \<Rightarrow> egg_rand) \<Rightarrow> (nat \<Rightarrow> fish_init \<times> real) \<Rightarrow> real \<Rightarrow> app \<Rightarrow> app" where
  "rebuildScene er fr now s =
     (let w = a_worldW s;
          h = a_worldH s;
          aq = Some (Aquarium_new w h);
          sd = Some (Sand_new w h);
          eggs1 = rebuildEggVisualsForMode (a_mode s) w h aq sd
                    (map (\<lambda>i. (a_eggs s ! i, er i)) [0 ..< length (a_eggs s)]);
          fish1 = rebuildHatchedVisualsForMode (a_mode s) w h aq now
                    (map (\<lambda>i. (a_hatchFish s ! i, fr i)) [0 ..< length (a_hatchFish s)]);
          eggs2 = map (Egg_setEnvironment w h aq sd) eggs1;
          fish2 = map (hatch_setBounds w h aq) fish1
      in s\<lparr> a_aquarium := aq, a_sand := sd, a_eggs := eggs2, a_hatchFish := fish2 \<rparr>)"

text \<open>The handler of the mode switch: \<open>md\<close> is the mode the checkbox selects.\<close>

definition toggleMode ::
  "mode \<Rightarrow> (nat \<Rightarrow> egg_rand) \<Rightarrow> (nat \<Rightarrow> fish_init \<times> real) \<Rightarrow> real \<Rightarrow> app \<Rightarrow> app" where
  "toggleMode md er fr now s =
     (let s1 = rebuildScene er fr now (s\<lparr> a_mode := md \<rparr>)
      in s1\<lparr> a_hatchFish := map (retargetGrowthForMode now) (a_hatchFish s1) \<rparr>)"

text \<open>
  \<open>resize\<close> for a viewport of \<open>vw\<close> by \<open>vh\<close> pixels. The world height is the
  constant \<open>2.2\<close>, the world width follows the aspect ratio, and \<open>scaleK\<close> is the ratio
  of the new world height to the one remembered in \<open>_lastWorldH\<close>.
\<close>

definition resize_worldW :: "real \<Rightarrow> real \<Rightarrow> real" where
  "resize_worldW vw vh = 2.2 * (vw / max 1 vh)"

definition resize_worldH :: real where
  "resize_worldH = 2.2"

definition resize_scaleK :: "real \<Rightarrow> real \<Rightarrow> real" where
  "resize_scaleK lastWorldH worldH =
     (let prevH = (if lastWorldH = 0 then worldH else lastWorldH)
      in if prevH > 0.0001 then resize_worldH / prevH else 1.0)"

text \<open>The first loop of \<open>resize\<close>, for one entry of \<open>hatchFish\<close>.\<close>

definition resize_fishScale :: "real \<Rightarrow> hatch_fish \<Rightarrow> hatch_fish" where
  "resize_fishScale scaleK hf =
     (case hf_obj hf of
        None \<Rightarrow> hf
      | Some obj \<Rightarrow>
          (case f_root obj of
             None \<Rightarrow> hf
           | Some (x, y, z) \<Rightarrow>
               hf\<lparr> hf_obj := Some (obj\<lparr> f_root := Some (x * scaleK, y * scaleK, z * scaleK) \<rparr>),
                   hf_adultRootScale :=
                     (case hf_adultRootScale hf of
                        None \<Rightarrow> None
                      | Some a \<Rightarrow> Some (a * scaleK)) \<rparr>))"

text \<open>
  The whole of \<open>resize\<close>: the first loop, the new world dimensions, \<open>rebuildScene\<close>,
  and then \<open>setEnvironment\<close> on every egg and \<open>setBounds\<close> on every fish once more.
  \<open>scaleK\<close> is used by the first loop only.
\<close>

definition resize ::
  "real \<Rightarrow> real \<Rightarrow> (nat \<Rightarrow> egg_rand) \<Rightarrow> (nat \<Rightarrow> fish_init \<times> real) \<Rightarrow> real \<Rightarrow> app \<Rightarrow> app" where
  "resize vw vh er fr now s =
     (let scaleK = resize_scaleK (a_lastWorldH s) (a_worldH s);
          worldW = resize_worldW vw vh;
          worldH = resize_worldH;
          fish0 = map (resize_fishScale scaleK) (a_hatchFish s);
          s1 = rebuildScene er fr now
                 (s\<lparr> a_worldW := worldW, a_worldH := worldH, a_lastWorldH := worldH,
                     a_hatchFish := fish0 \<rparr>)
      in s1\<lparr> a_eggs := map (Egg_setEnvironment worldW worldH (a_aquarium s1) (a_sand s1))
                          (a_eggs s1),
             a_hatchFish := map (hatch_setBounds worldW worldH (a_aquarium s1))
                              (a_hatchFish s1) \<rparr>)"


text \<open>
  The hatch table of \<open>spawnHatchFish\<close>, \<open>randPick\<close> with its draw, and
  \<open>String.prototype.includes\<close> for \<open>displayNameForUrl\<close>.
\<close>

definition specByType :: "string \<Rightarrow> fish_spec list" where
  "specByType eggType =
     (if eggType = ''deepsea'' then
        [\<lparr> sp_kind = ''deep'', sp_url = ''assets/fish/anglerfish.glb'', sp_zLayer = Some 0.48 \<rparr>,
         \<lparr> sp_kind = ''deep'', sp_url = ''assets/fish/octo.glb'', sp_zLayer = Some 0.36 \<rparr>]
      else if eggType = ''basic'' then
        [\<lparr> sp_kind = ''common'', sp_url = ''assets/fish/carp.glb'', sp_zLayer = Some (- 0.36) \<rparr>]
      else if eggType = ''schooling'' then
        [\<lparr> sp_kind = ''school'', sp_url = ''assets/fish/fish2.glb'', sp_zLayer = Some (- 0.24) \<rparr>,
         \<lparr> sp_kind = ''school'', sp_url = ''assets/fish/bass.glb'', sp_zLayer = Some (- 0.12) \<rparr>]
      else if eggType = ''tropical'' then
        [\<lparr> sp_kind = ''trop'', sp_url = ''assets/fish/nemo.glb'', sp_zLayer = Some 0.12 \<rparr>,
         \<lparr> sp_kind = ''trop'', sp_url = ''assets/fish/dory.glb'', sp_zLayer = Some 0.00 \<rparr>]
      else if eggType = ''ornamental'' then
        [\<lparr> sp_kind = ''orn'', sp_url = ''assets/fish/koi.glb'', sp_zLayer = Some 0.24 \<rparr>]
      else if eggType = ''saltwater'' then
        [\<lparr> sp_kind = ''reef'', sp_url = ''assets/fish/turtle.glb'', sp_zLayer = Some 0.18 \<rparr>]
      else if eggType = ''mythical'' then
        [\<lparr> sp_kind = ''myth'', sp_url = ''assets/fish/shark.glb'', sp_zLayer = Some 0.30 \<rparr>,
         \<lparr> sp_kind = ''myth'', sp_url = ''assets/fish/sailfish.glb'', sp_zLayer = Some 0.36 \<rparr>]
      else [])"

definition randPick :: "real \<Rightarrow> 'a list \<Rightarrow> 'a option" where
  "randPick r xs =
     (let i = nat \<lfloor>r * real (length xs)\<rfloor>
      in if i < length xs then Some (xs ! i) else None)"

fun str_includes :: "string \<Rightarrow> string \<Rightarrow> bool" where
  "str_includes [] s = (s = [])"
| "str_includes (c # cs) s = (take (length s) (c # cs) = s \<or> str_includes cs s)"

definition displayNameForUrl :: "string \<Rightarrow> string" where
  "displayNameForUrl url =
     (if str_includes url ''carp.glb'' then ''carp''
      else if str_includes url ''fish2.glb'' then ''sardine''
      else if str_includes url ''bass.glb'' then ''bass''
      else if str_includes url ''koi.glb'' then ''koi''
      else if str_includes url ''nemo.glb'' then ''clownfish''
      else if str_includes url ''dory.glb'' then ''blue tang''
      else if str_includes url ''octo.glb'' then ''octopus''
      else if str_includes url ''anglerfish.glb'' then ''anglerfish''
      else if str_includes url ''turtle.glb'' then ''sea turtle''
      else if str_includes url ''shark.glb'' then ''shark''
      else if str_includes url ''sailfish.glb'' then ''sailfish''
      else ''fish'')"

text \<open>
  \<open>spawnHatchFish(eggType, x, y)\<close> at clock time \<open>now\<close>, with the draw \<open>pick\<close> of
  \<open>randPick\<close> and the draws \<open>ini\<close> of the constructor: a \<open>PrimitiveFish\<close> in the
  prototype mode, else the class that the kind of the picked entry names.
\<close>

definition spawnHatchFish ::
  "string \<Rightarrow> real \<Rightarrow> real \<Rightarrow> real \<Rightarrow> fish_init \<Rightarrow> real \<Rightarrow> app \<Rightarrow> app" where
  "spawnHatchFish eggType x y pick ini now s =
     (case randPick pick (specByType eggType) of
        None \<Rightarrow> s
      | Some spec \<Rightarrow>
          (case (if a_mode s = Prototype then Some PrimitiveFish
                 else class_of_kind (sp_kind spec)) of
             None \<Rightarrow> s
           | Some c \<Rightarrow>
               (let obj = Fish_new c (a_worldW s) (a_worldH s) (a_aquarium s) (sp_zLayer spec) ini
                in s\<lparr> a_hatchFish := a_hatchFish s @
                         [spawnHatchFish_entry (a_fishIdCounter s) eggType obj spec
                            (displayNameForUrl (sp_url spec)) now x y],
                       a_fishIdCounter := Suc (a_fishIdCounter s) \<rparr>)))"

section \<open>CommonFish\<close>

text \<open>
  The motion state of a \<open>CommonFish\<close>. \<open>c_gx\<close> and \<open>c_gy\<close> are \<open>group.position\<close>,
  \<open>c_rotY\<close> is \<open>group.rotation.y\<close>. The loaded model, its animation mixer and the
  procedural wiggle of the root change no field below and are left out.
\<close>

record common_fish =
  c_width :: real
  c_height :: real
  c_aquarium :: "aquarium option"
  c_facingFix :: real
  c_dir :: real
  c_x :: real
  c_y :: real
  c_phase :: real
  c_speed :: real
  c_bobAmp :: real
  c_bobRate :: real
  c_turnCooldown :: real
  c_xMin :: real
  c_xMax :: real
  c_yMin :: real
  c_yMax :: real
  c_halfW :: real
  c_halfH :: real
  c_gx :: real
  c_gy :: real
  c_rotY :: real
  c_spawnLocked :: bool
  c_spawnLockTime :: real

definition CommonFish_syncBounds :: "common_fish \<Rightarrow> common_fish" where
  "CommonFish_syncBounds c =
     (let w = c_width c;
          h = c_height c;
          marginX = max (0.08 * w) 0.18;
          topMargin = max (0.10 * h) 0.16;
          sandBedH = h * 0.22;
          sandTopY = - h / 2 + sandBedH;
          sandMargin = max (0.08 * h) 0.12;
          base = w * 0.12
      in c\<lparr> c_xMin := - w / 2 + marginX + c_halfW c,
            c_xMax := w / 2 - marginX - c_halfW c,
            c_yMin := sandTopY + sandMargin + c_halfH c,
            c_yMax := (case c_aquarium c of
                         Some a \<Rightarrow> innerTop a - c_halfH c
                       | None \<Rightarrow> h / 2 - topMargin - c_halfH c),
            c_speed := clamp base 0.18 0.75,
            c_bobAmp := clamp (h * 0.012) 0.018 0.045 \<rparr>)"

definition CommonFish_clampToBounds :: "common_fish \<Rightarrow> common_fish" where
  "CommonFish_clampToBounds c =
     c\<lparr> c_x := clamp (c_x c) (c_xMin c) (c_xMax c),
        c_y := clamp (c_y c) (c_yMin c) (c_yMax c) \<rparr>"

definition CommonFish_applyFacing :: "common_fish \<Rightarrow> common_fish" where
  "CommonFish_applyFacing c =
     c\<lparr> c_rotY := pi / 2 + (if c_dir c \<ge> 0 then 0 else pi) + c_facingFix c \<rparr>"

definition CommonFish_flip :: "real \<Rightarrow> common_fish \<Rightarrow> common_fish" where
  "CommonFish_flip nextDir c =
     (if c_turnCooldown c > 0 then c
      else CommonFish_applyFacing (c\<lparr> c_dir := nextDir, c_turnCooldown := 0.12 \<rparr>))"

record common_opts =
  co_width :: real
  co_height :: real
  co_aquarium :: "aquarium option"
  co_facingFix :: "real option"

record common_rand =
  cr_dir :: real
  cr_phase :: real
  cr_spawnX :: real
  cr_spawnY :: real

definition CommonFish_new :: "common_opts \<Rightarrow> common_rand \<Rightarrow> common_fish" where
  "CommonFish_new opts rnd =
     (let c0 = \<lparr> c_width = co_width opts, c_height = co_height opts,
                 c_aquarium = co_aquarium opts,
                 c_facingFix = (case co_facingFix opts of Some v \<Rightarrow> v | None \<Rightarrow> 0.0),
                 c_dir = (if cr_dir rnd < 0.5 then 1 else - 1),
                 c_x = 0, c_y = 0,
                 c_phase = cr_phase rnd * pi * 2,
                 c_speed = 0.3, c_bobAmp = 0.03, c_bobRate = 0.9,
                 c_turnCooldown = 0,
                 c_xMin = - 1, c_xMax = 1, c_yMin = - 1, c_yMax = 1,
                 c_halfW = 0.12, c_halfH = 0.08,
                 c_gx = 0, c_gy = 0, c_rotY = 0,
                 c_spawnLocked = True, c_spawnLockTime = 0.35 \<rparr>;
          c1 = CommonFish_syncBounds c0;
          c2 = c1\<lparr> c_x := lerp (c_xMin c1) (c_xMax c1) (0.25 + 0.5 * cr_spawnX rnd),
                    c_y := lerp (c_yMin c1) (c_yMax c1) (0.20 + 0.6 * cr_spawnY rnd) \<rparr>
      in CommonFish_applyFacing c2)"

text \<open>\<open>CommonFish.update(dt, t)\<close>.\<close>

definition CommonFish_update :: "real \<Rightarrow> real \<Rightarrow> common_fish \<Rightarrow> common_fish" where
  "CommonFish_update dt t c =
     (if dt = 0 then c
      else if c_spawnLocked c then
        (let c1 = c\<lparr> c_spawnLockTime := max 0 (c_spawnLockTime c - dt),
                     c_x := c_gx c, c_y := c_gy c \<rparr>
         in if c_spawnLockTime c1 \<le> 0
            then CommonFish_applyFacing
                   (CommonFish_clampToBounds (c1\<lparr> c_phase := - t, c_spawnLocked := False \<rparr>))
            else c1)
      else
        (let c1 = (if c_turnCooldown c > 0
                   then c\<lparr> c_turnCooldown := max 0 (c_turnCooldown c - dt) \<rparr> else c);
             c2 = c1\<lparr> c_x := c_x c1 + c_dir c1 * c_speed c1 * dt \<rparr>;
             c3 = (if c_x c2 > c_xMax c2 then CommonFish_flip (- 1) (c2\<lparr> c_x := c_xMax c2 \<rparr>)
                   else if c_x c2 < c_xMin c2 then CommonFish_flip 1 (c2\<lparr> c_x := c_xMin c2 \<rparr>)
                   else c2);
             driftY = 0.03 * sin ((c_phase c3 + t * 0.7) * 0.55);
             c4 = c3\<lparr> c_y := clamp (c_y c3 + driftY * dt) (c_yMin c3) (c_yMax c3) \<rparr>;
             bob = sin ((c_phase c4 + t) * c_bobRate c4) * c_bobAmp c4
         in c4\<lparr> c_gx := c_x c4,
                 c_gy := clamp (c_y c4 + bob) (c_yMin c4) (c_yMax c4) \<rparr>))"

text \<open>
  Frames of the same length \<open>dt\<close> at the clock times \<open>ts\<close>: the direction before the
  first frame and after each frame, and the number of places where a list changes value.
\<close>

fun dir_trace :: "real \<Rightarrow> common_fish \<Rightarrow> real list \<Rightarrow> real list" where
  "dir_trace dt c [] = [c_dir c]"
| "dir_trace dt c (t # ts) = c_dir c # dir_trace dt (CommonFish_update dt t c) ts"

fun changes :: "real list \<Rightarrow> nat" where
  "changes (a # b # rest) = (if a = b then 0 else 1) + changes (b # rest)"
| "changes _ = 0"

section \<open>SchoolingFish and the shared school\<close>

text \<open>
  \<open>Math.sqrt(x * x + y * y)\<close>, and \<open>a || b\<close> on numbers (\<open>b\<close> when \<open>a\<close> is zero).
\<close>

definition vlen :: "real \<Rightarrow> real \<Rightarrow> real" where
  "vlen x y = sqrt (x * x + y * y)"

definition or_else :: "real \<Rightarrow> real \<Rightarrow> real" where
  "or_else a b = (if a = 0 then b else a)"

text \<open>
  The shared state of one school, kept in the static map \<open>SchoolingFish._schools\<close>.
  \<open>sc_lx\<close>, \<open>sc_ly\<close>, \<open>sc_lvx\<close>, \<open>sc_lvy\<close> are the leader's position and velocity,
  \<open>sc_tx\<close> and \<open>sc_ty\<close> the target. Every member holds a reference to the object
  of its school id; the model keeps the objects in a store keyed by school id, and a
  member reaches its school through its id.
\<close>

record school =
  sc_id :: string
  sc_width :: real
  sc_height :: real
  sc_aquarium :: "aquarium option"
  sc_sizeHint :: real
  sc_needsRespawn :: bool
  sc_leaderHalfH :: real
  sc_topBuffer :: real
  sc_lx :: real
  sc_ly :: real
  sc_lvx :: real
  sc_lvy :: real
  sc_timer :: real
  sc_tx :: real
  sc_ty :: real

type_synonym schools = "string \<rightharpoonup> school"

definition School_new :: "string \<Rightarrow> real \<Rightarrow> real \<Rightarrow> aquarium option \<Rightarrow> school" where
  "School_new ident width height aq =
     \<lparr> sc_id = ident, sc_width = width, sc_height = height, sc_aquarium = aq,
       sc_sizeHint = 2, sc_needsRespawn = True, sc_leaderHalfH = 0.08, sc_topBuffer = 0.14,
       sc_lx = 0, sc_ly = 0, sc_lvx = 0.30, sc_lvy = 0.06,
       sc_timer = 0, sc_tx = 0, sc_ty = 0 \<rparr>"

text \<open>\<open>SchoolingFish._getSchool\<close>: the school of the id, created on first use.\<close>

definition getSchool :: "string \<Rightarrow> real \<Rightarrow> real \<Rightarrow> aquarium option \<Rightarrow> schools \<Rightarrow> school" where
  "getSchool ident width height aq st =
     (case st ident of
        None \<Rightarrow> School_new ident width height aq
      | Some s \<Rightarrow> s\<lparr> sc_width := width, sc_height := height,
                     sc_aquarium := (case aq of Some a \<Rightarrow> Some a | None \<Rightarrow> sc_aquarium s) \<rparr>)"

text \<open>
  The draws of one call of \<open>_tickSchool\<close>: two for a respawn and three for each of the
  two places that pick a new target (horizontal, vertical, timer).
\<close>

record tick_rand =
  tr_side :: real
  tr_vy :: real
  tr_respawnPick :: "real \<times> real \<times> real"
  tr_timerPick :: "real \<times> real \<times> real"

definition School_topY :: "school \<Rightarrow> real" where
  "School_topY s =
     (case sc_aquarium s of
        Some a \<Rightarrow> innerTop a - or_else (sc_topBuffer s) 0.14 - or_else (sc_leaderHalfH s) 0
      | None \<Rightarrow> sc_height s / 2 - or_else (sc_topBuffer s) 0.14 - or_else (sc_leaderHalfH s) 0)"

definition pickNewTarget :: "real \<times> real \<times> real \<Rightarrow> school \<Rightarrow> school" where
  "pickNewTarget rnd s =
     (let w = sc_width s;
          h = sc_height s;
          marginX = max (0.12 * w) 0.26;
          sandBedH = h * 0.22;
          sandTopY = - h / 2 + sandBedH;
          sandMargin = max (0.10 * h) 0.14;
          xMin = - w / 2 + marginX;
          xMax = w / 2 - marginX;
          yMin = sandTopY + sandMargin + (0.06 * h);
          yMax = School_topY s
      in s\<lparr> sc_tx := lerp xMin xMax (0.18 + 0.64 * fst rnd),
            sc_ty := lerp yMin yMax (0.18 + 0.64 * fst (snd rnd)),
            sc_timer := 2.8 + snd (snd rnd) * 2.4 \<rparr>)"

definition tickSchool :: "real \<Rightarrow> tick_rand \<Rightarrow> school \<Rightarrow> school" where
  "tickSchool dt rnd s =
     (let s1 = (if sc_needsRespawn s
                then pickNewTarget (tr_respawnPick rnd)
                       (s\<lparr> sc_needsRespawn := False, sc_timer := 0, sc_lx := 0, sc_ly := 0,
                           sc_lvx := 0.30 * (if tr_side rnd < 0.5 then 1 else - 1),
                           sc_lvy := 0.06 * (tr_vy rnd * 2 - 1) \<rparr>)
                else s);
          s2 = s1\<lparr> sc_timer := sc_timer s1 - dt \<rparr>;
          s3 = (if sc_timer s2 \<le> 0 then pickNewTarget (tr_timerPick rnd) s2 else s2);
          w = sc_width s3;
          h = sc_height s3;
          marginX = max (0.10 * w) 0.22;
          sandBedH = h * 0.22;
          sandTopY = - h / 2 + sandBedH;
          sandMargin = max (0.10 * h) 0.14;
          xMin = - w / 2 + marginX;
          xMax = w / 2 - marginX;
          yMin = sandTopY + sandMargin;
          yMax = School_topY s3;
          dx = sc_tx s3 - sc_lx s3;
          dy = sc_ty s3 - sc_ly s3;
          dist = or_else (vlen dx dy) 0.000001;
          maxSpeed = clamp (w * 0.15) 0.22 0.80;
          maxAccel = clamp (w * 0.42) 0.55 1.45;
          desiredSpeed = (if dist < 0.55 then maxSpeed * clamp (dist / 0.55) 0.10 1.0
                          else maxSpeed);
          dvx = (dx / dist) * desiredSpeed - sc_lvx s3;
          dvy = (dy / dist) * desiredSpeed - sc_lvy s3;
          dLen = or_else (vlen dvx dvy) 0.000001;
          ax = (dvx / dLen) * min maxAccel (dLen / dt);
          ay = (dvy / dLen) * min maxAccel (dLen / dt);
          ld = 0.90 powr dt;
          vx1 = (sc_lvx s3 + ax * dt) * ld;
          vy1 = (sc_lvy s3 + ay * dt) * ld;
          sp = or_else (vlen vx1 vy1) 0.000001;
          vx2 = (if sp > maxSpeed then (vx1 / sp) * maxSpeed else vx1);
          vy2 = (if sp > maxSpeed then (vy1 / sp) * maxSpeed else vy1);
          x1 = sc_lx s3 + vx2 * dt;
          y1 = sc_ly s3 + vy2 * dt;
          x2 = (if x1 > xMax then xMax else if x1 < xMin then xMin else x1);
          vx3 = (if x1 > xMax then - \<bar>vx2\<bar> * 0.65
                 else if x1 < xMin then \<bar>vx2\<bar> * 0.65 else vx2);
          y2 = (if y1 > yMax then yMax else if y1 < yMin then yMin else y1);
          vy3 = (if y1 > yMax then - \<bar>vy2\<bar> * 0.65
                 else if y1 < yMin then \<bar>vy2\<bar> * 0.65 else vy2)
      in s3\<lparr> sc_lx := x2, sc_ly := y2, sc_lvx := vx3, sc_lvy := vy3 \<rparr>)"

text \<open>
  The motion state of one \<open>SchoolingFish\<close>. \<open>m_gx\<close> and \<open>m_gy\<close> are
  \<open>group.position\<close>, \<open>m_rotY\<close> is \<open>group.rotation.y\<close>. The loaded model, its mixer
  and the procedural wiggle are left out.
\<close>

record school_fish =
  m_width :: real
  m_height :: real
  m_aquarium :: "aquarium option"
  m_facingFix :: real
  m_speedMul :: real
  m_schoolId :: string
  m_memberIndex :: real
  m_schoolSize :: real
  m_x :: real
  m_y :: real
  m_vx :: real
  m_vy :: real
  m_phase :: real
  m_maxSpeed :: real
  m_maxAccel :: real
  m_velDamp :: real
  m_bobAmp :: real
  m_bobRate :: real
  m_xMin :: real
  m_xMax :: real
  m_yMin :: real
  m_yMax :: real
  m_topBuffer :: real
  m_halfW :: real
  m_halfH :: real
  m_faceDir :: real
  m_faceFlipThreshold :: real
  m_faceHoldDir :: real
  m_faceHoldT :: real
  m_faceHoldTime :: real
  m_gx :: real
  m_gy :: real
  m_rotY :: real

text \<open>
  \<open>SchoolingFish._syncBounds\<close>: the fields of the member, and the two values it copies
  into the school when the member already has one.
\<close>

definition SchoolingFish_bounds :: "school_fish \<Rightarrow> school_fish" where
  "SchoolingFish_bounds m =
     (let w = m_width m;
          h = m_height m;
          marginX = max (0.08 * w) 0.18;
          topBuffer = max (0.04 * h) 0.14;
          sandBedH = h * 0.22;
          sandTopY = - h / 2 + sandBedH;
          sandMargin = max (0.08 * h) 0.12;
          base = w * 0.19;
          maxSpeed = clamp base 0.28 0.92 * m_speedMul m
      in m\<lparr> m_topBuffer := topBuffer,
            m_xMin := - w / 2 + marginX + m_halfW m,
            m_xMax := w / 2 - marginX - m_halfW m,
            m_yMin := sandTopY + sandMargin + m_halfH m,
            m_yMax := (case m_aquarium m of
                         Some a \<Rightarrow> innerTop a - topBuffer - m_halfH m
                       | None \<Rightarrow> (h / 2) - topBuffer - m_halfH m),
            m_maxSpeed := maxSpeed,
            m_maxAccel := clamp (base * 2.15) 0.95 2.45,
            m_faceFlipThreshold := clamp (maxSpeed * 0.12) 0.045 0.13 \<rparr>)"

definition School_noteMember :: "school_fish \<Rightarrow> schools \<Rightarrow> schools" where
  "School_noteMember m st =
     (case st (m_schoolId m) of
        None \<Rightarrow> st
      | Some s \<Rightarrow> st(m_schoolId m \<mapsto>
                     s\<lparr> sc_leaderHalfH := m_halfH m, sc_topBuffer := m_topBuffer m \<rparr>))"

definition SchoolingFish_syncBounds :: "school_fish \<times> schools \<Rightarrow> school_fish \<times> schools" where
  "SchoolingFish_syncBounds p =
     (let m = SchoolingFish_bounds (fst p) in (m, School_noteMember m (snd p)))"

definition SchoolingFish_applyFacingNow :: "school_fish \<Rightarrow> school_fish" where
  "SchoolingFish_applyFacingNow m =
     m\<lparr> m_rotY := pi / 2 + (if m_faceDir m \<ge> 0 then 0 else pi) + m_facingFix m \<rparr>"

record school_opts =
  so_width :: real
  so_height :: real
  so_aquarium :: "aquarium option"
  so_url :: "string option"
  so_facingFix :: "real option"
  so_speedMul :: "real option"
  so_schoolId :: string
  so_memberIndex :: "real option"
  so_schoolSize :: "real option"

record school_rand =
  sr_phase :: real
  sr_jitter :: real
  sr_bobAmp :: real
  sr_bobRate :: real
  sr_face :: real
  sr_spawnX :: real
  sr_spawnY :: real
  sr_vx :: real
  sr_vy :: real

text \<open>
  The constructor: bounds and spawn position first, then the registration of the school.
  A facing fix of 0 becomes \<open>\<pi>\<close> for the two models that are authored facing the
  other way.
\<close>

definition SchoolingFish_new ::
  "school_opts \<Rightarrow> school_rand \<Rightarrow> schools \<Rightarrow> school_fish \<times> schools" where
  "SchoolingFish_new opts rnd st =
     (let url = (case so_url opts of
                   Some u \<Rightarrow> (if u = [] then ''assets/fish/fish2.glb'' else u)
                 | None \<Rightarrow> ''assets/fish/fish2.glb'');
          facingFix0 = (case so_facingFix opts of Some v \<Rightarrow> v | None \<Rightarrow> 0.0);
          facingFix = (if facingFix0 = 0.0
                          \<and> (str_includes url ''fish2.glb'' \<or> str_includes url ''bass.glb'')
                       then pi else facingFix0);
          speedMul = (case so_speedMul opts of Some v \<Rightarrow> v | None \<Rightarrow> 1.0);
          jitter = 0.90 + 0.22 * sr_jitter rnd;
          m0 = \<lparr> m_width = so_width opts, m_height = so_height opts,
                 m_aquarium = so_aquarium opts,
                 m_facingFix = facingFix,
                 m_speedMul = speedMul,
                 m_schoolId = (if so_schoolId opts = [] then ''school_default''
                               else so_schoolId opts),
                 m_memberIndex = (case so_memberIndex opts of Some v \<Rightarrow> v | None \<Rightarrow> 0),
                 m_schoolSize = (case so_schoolSize opts of
                                   Some v \<Rightarrow> (if v > 0 then v else 2)
                                 | None \<Rightarrow> 2),
                 m_x = 0, m_y = 0, m_vx = 0, m_vy = 0,
                 m_phase = sr_phase rnd * pi * 2,
                 m_maxSpeed = 0.62 * jitter * speedMul,
                 m_maxAccel = 1.45 * jitter,
                 m_velDamp = 0.92,
                 m_bobAmp = 0.018 + 0.008 * sr_bobAmp rnd,
                 m_bobRate = 0.90 + 0.22 * sr_bobRate rnd,
                 m_xMin = - 1, m_xMax = 1, m_yMin = - 1, m_yMax = 1,
                 m_topBuffer = 0.14, m_halfW = 0.12, m_halfH = 0.08,
                 m_faceDir = (if sr_face rnd < 0.5 then 1 else - 1),
                 m_faceFlipThreshold = 0.06,
                 m_faceHoldDir = 0, m_faceHoldT = 0, m_faceHoldTime = 0.22,
                 m_gx = 0, m_gy = 0, m_rotY = 0 \<rparr>;
          m1 = SchoolingFish_bounds m0;
          x = lerp (m_xMin m1) (m_xMax m1) (0.25 + 0.5 * sr_spawnX rnd);
          y = lerp (m_yMin m1) (m_yMax m1) (0.25 + 0.55 * sr_spawnY rnd);
          vx = (sr_vx rnd * 2 - 1) * 0.12;
          m2 = SchoolingFish_applyFacingNow
                 (m1\<lparr> m_x := x, m_y := y, m_gx := x, m_gy := y,
                      m_vx := vx, m_vy := (sr_vy rnd * 2 - 1) * 0.06,
                      m_faceDir := (if vx \<ge> 0 then 1 else - 1) \<rparr>);
          s = getSchool (m_schoolId m2) (m_width m2) (m_height m2) (m_aquarium m2) st;
          s1 = s\<lparr> sc_sizeHint := max (sc_sizeHint s) (m_schoolSize m2),
                  sc_leaderHalfH := m_halfH m2, sc_topBuffer := m_topBuffer m2 \<rparr>
      in (m2, st(m_schoolId m2 \<mapsto> s1)))"


text \<open>
  \<open>SchoolingFish.update(dt, t)\<close> on the member and the store of schools. The call of
  \<open>_tickSchool\<close> comes first and is not guarded by anything but \<open>dt\<close>.
\<close>

definition SchoolingFish_steer :: "real \<Rightarrow> real \<Rightarrow> school \<Rightarrow> school_fish \<Rightarrow> school_fish" where
  "SchoolingFish_steer dt t s m =
     (let behind = 0.18 + 0.08 * (m_schoolSize m - 1);
          along = - behind * (m_memberIndex m / max 1 (m_schoolSize m - 1));
          lateral = (m_memberIndex m - (m_schoolSize m - 1) * 0.5) * 0.085;
          vertical = sin (m_phase m + t * 0.55) * 0.022;
          small = (sc_lvx s * sc_lvx s + sc_lvy s * sc_lvy s < 0.000001);
          lx0 = (if small then 1 else sc_lvx s);
          ly0 = (if small then 0 else sc_lvy s);
          ll = or_else (vlen lx0 ly0) 1;
          lvx = lx0 / ll;
          lvy = ly0 / ll;
          targetX = sc_lx s + lvx * along + (- lvy) * lateral;
          targetY = sc_ly s + lvy * along + lvx * lateral + vertical;
          dx = targetX - m_x m;
          dy = targetY - m_y m;
          dist = vlen dx dy;
          desiredSpeed = (if dist < 0.55 then m_maxSpeed m * clamp (dist / 0.55) 0.08 1.0
                          else m_maxSpeed m);
          desX = (if dist > 0.000001 then dx * (1 / dist) else dx) * desiredSpeed;
          desY = (if dist > 0.000001 then dy * (1 / dist) else dy) * desiredSpeed;
          steerX = desX - m_vx m;
          steerY = desY - m_vy m;
          steerLen = or_else (vlen steerX steerY) 0.000001;
          accelMag = min (m_maxAccel m) (steerLen / dt);
          damp = m_velDamp m powr dt;
          vx1 = (m_vx m + (steerX / steerLen) * accelMag * dt) * damp;
          vy1 = (m_vy m + (steerY / steerLen) * accelMag * dt) * damp;
          sp = or_else (vlen vx1 vy1) 0.000001;
          vx2 = (if sp > m_maxSpeed m then (vx1 / sp) * m_maxSpeed m else vx1);
          vy2 = (if sp > m_maxSpeed m then (vy1 / sp) * m_maxSpeed m else vy1);
          x1 = m_x m + vx2 * dt;
          y1 = m_y m + vy2 * dt;
          x2 = (if x1 > m_xMax m then m_xMax m else if x1 < m_xMin m then m_xMin m else x1);
          vx3 = (if x1 > m_xMax m then - \<bar>vx2\<bar> * 0.55
                 else if x1 < m_xMin m then \<bar>vx2\<bar> * 0.55 else vx2);
          y2 = (if y1 > m_yMax m then m_yMax m else if y1 < m_yMin m then m_yMin m else y1);
          vy3 = (if y1 > m_yMax m then - \<bar>vy2\<bar> * 0.55
                 else if y1 < m_yMin m then \<bar>vy2\<bar> * 0.55 else vy2);
          bob = sin ((m_phase m + t) * m_bobRate m) * m_bobAmp m;
          m1 = m\<lparr> m_x := x2, m_y := y2, m_vx := vx3, m_vy := vy3,
                  m_gx := x2,
                  m_gy := clamp (y2 + bob) (m_yMin m + m_bobAmp m) (m_yMax m - m_bobAmp m) \<rparr>;
          m2 = (if m_vx m1 > m_faceFlipThreshold m1 then
                  (let a = (if m_faceHoldDir m1 \<noteq> 1
                            then m1\<lparr> m_faceHoldDir := 1, m_faceHoldT := 0 \<rparr> else m1);
                       b = a\<lparr> m_faceHoldT := m_faceHoldT a + dt \<rparr>
                   in if m_faceHoldT b \<ge> m_faceHoldTime b then b\<lparr> m_faceDir := 1 \<rparr> else b)
                else if m_vx m1 < - m_faceFlipThreshold m1 then
                  (let a = (if m_faceHoldDir m1 \<noteq> - 1
                            then m1\<lparr> m_faceHoldDir := - 1, m_faceHoldT := 0 \<rparr> else m1);
                       b = a\<lparr> m_faceHoldT := m_faceHoldT a + dt \<rparr>
                   in if m_faceHoldT b \<ge> m_faceHoldTime b then b\<lparr> m_faceDir := - 1 \<rparr> else b)
                else m1\<lparr> m_faceHoldDir := 0, m_faceHoldT := 0 \<rparr>)
      in SchoolingFish_applyFacingNow m2)"

definition SchoolingFish_update ::
  "real \<Rightarrow> real \<Rightarrow> tick_rand \<Rightarrow> school_fish \<times> schools \<Rightarrow> school_fish \<times> schools" where
  "SchoolingFish_update dt t rnd p =
     (if dt = 0 then p
      else
        (let m = fst p;
             st = snd p;
             s0 = (case st (m_schoolId m) of
                     Some s \<Rightarrow> s
                   | None \<Rightarrow> School_new (m_schoolId m) (m_width m) (m_height m) (m_aquarium m));
             s = tickSchool dt rnd s0
         in (SchoolingFish_steer dt t s m, st(m_schoolId m \<mapsto> s))))"

text \<open>
  One frame of the main loop over the schooling fish: \<open>update(dt, t)\<close> on each member
  in turn, every call with its own draws.
\<close>

fun School_frame ::
  "real \<Rightarrow> real \<Rightarrow> (school_fish \<times> tick_rand) list \<Rightarrow> schools \<Rightarrow> school_fish list \<times> schools" where
  "School_frame dt t [] st = ([], st)"
| "School_frame dt t (mr # rest) st =
     (let p = SchoolingFish_update dt t (snd mr) (fst mr, st);
          q = School_frame dt t rest (snd p)
      in (fst p # fst q, snd q))"

text \<open>The ticks themselves, one after the other with the given draws.\<close>

fun ticks :: "real \<Rightarrow> tick_rand list \<Rightarrow> school \<Rightarrow> school" where
  "ticks dt [] s = s"
| "ticks dt (r # rs) s = ticks dt rs (tickSchool dt r s)"

section \<open>Shop\<close>

text \<open>
  The coin balance of \<open>ShopUI\<close> and the click handler of a card. What a click does to
  the outside is returned as a list of effects: the callbacks, the UI event and the label
  written on the button. The timers that reset the label are presentation and left out.
\<close>

datatype tab = Buy | Sell

record shop_item =
  it_id :: string
  it_price :: "real option"

datatype effect =
  CoinsChanged real
  | BuyItem shop_item
  | SellItem shop_item
  | Emit string string
  | Label string

record shop =
  sh_coins :: real
  sh_tab :: tab
  sh_onCoinsChanged :: bool
  sh_onBuyItem :: bool
  sh_onSellItem :: bool
  sh_onUIEvent :: bool

definition setCoins :: "real \<Rightarrow> shop \<Rightarrow> shop" where
  "setCoins coins s = s\<lparr> sh_coins := max 0 (of_int \<lfloor>coins\<rfloor>) \<rparr>"

definition addCoins :: "real \<Rightarrow> shop \<Rightarrow> shop \<times> effect list" where
  "addCoins delta s =
     (let s1 = setCoins (sh_coins s + delta) s
      in (s1, if sh_onCoinsChanged s1 then [CoinsChanged (sh_coins s1)] else []))"

definition emit :: "string \<Rightarrow> string \<Rightarrow> shop \<Rightarrow> effect list" where
  "emit ty ident s = (if sh_onUIEvent s then [Emit ty ident] else [])"

definition card_click :: "shop_item option \<Rightarrow> shop \<Rightarrow> shop \<times> effect list" where
  "card_click item s =
     (case item of
        None \<Rightarrow> (s, [])
      | Some it \<Rightarrow>
          (if sh_tab s = Sell then
             (let gain = max 0 (case it_price it of Some p \<Rightarrow> p | None \<Rightarrow> 0);
                  r = addCoins gain s
              in (fst r,
                  snd r @ (if sh_onSellItem (fst r) then [SellItem it] else [])
                    @ emit ''sell'' (it_id it) (fst r) @ [Label ''sold!'']))
           else
             (let cost = max 0 (case it_price it of Some p \<Rightarrow> p | None \<Rightarrow> 0)
              in if cost > sh_coins s then (s, [Label ''nope''])
                 else
                   (let r = addCoins (- cost) s
                    in (fst r,
                        snd r @ (if sh_onBuyItem (fst r) then [BuyItem it] else [])
                          @ emit ''buy'' (it_id it) (fst r) @ [Label ''added!''])))))"

text \<open>
  The shop of the game: it starts from \<open>gameState = { coins: 30 }\<close> on the buy tab with
  all four callbacks installed. Its states are the ones reached by \<open>setCoins\<close>,
  \<open>addCoins\<close>, a click on a card, and a change of tab.
\<close>

definition game_shop :: shop where
  "game_shop = \<lparr> sh_coins = 30, sh_tab = Buy, sh_onCoinsChanged = True,
                  sh_onBuyItem = True, sh_onSellItem = True, sh_onUIEvent = True \<rparr>"

inductive shop_reachable :: "shop \<Rightarrow> bool" where
  start: "shop_reachable game_shop"
| set: "shop_reachable s \<Longrightarrow> shop_reachable (setCoins c s)"
| add: "shop_reachable s \<Longrightarrow> shop_reachable (fst (addCoins d s))"
| click: "shop_reachable s \<Longrightarrow> shop_reachable (fst (card_click item s))"
| switch: "shop_reachable s \<Longrightarrow> shop_reachable (s\<lparr> sh_tab := tb \<rparr>)"

text \<open>
  Driving an egg as above, the egg after every frame. \<open>first_true\<close> keeps the first
  \<open>True\<close> of a list and \<open>first_crossing\<close> marks the first step at which the sum of
  the age \<open>a\<close> and the steps \<open>ds\<close> reaches \<open>h\<close>; they serve to say in which frame
  an egg hatches.
\<close>

fun Egg_states :: "egg \<Rightarrow> (real \<times> real) list \<Rightarrow> egg list" where
  "Egg_states e [] = []"
| "Egg_states e (f # fs) =
     fst (Egg_update (fst f) (snd f) e) # Egg_states (fst (Egg_update (fst f) (snd f) e)) fs"

fun first_true :: "bool list \<Rightarrow> bool list" where
  "first_true [] = []"
| "first_true (b # bs) =
     (if b then True # replicate (length bs) False else False # first_true bs)"

fun first_crossing :: "real \<Rightarrow> real \<Rightarrow> real list \<Rightarrow> bool list" where
  "first_crossing a h [] = []"
| "first_crossing a h (d # ds) =
     (if a + d \<ge> h then True # replicate (length ds) False
      else False # first_crossing (a + d) h ds)"


section \<open>Example inputs\<close>

text \<open>
  A basic egg bought in a tank of 4 by 2.2 world units, with a hatch callback, and the
  draws its constructor makes.
\<close>

abbreviation basic_egg_opts :: egg_opts where
  "basic_egg_opts \<equiv>
     \<lparr> o_eggType = ''basic'', o_mode = Some Prototype, o_worldW = 4, o_worldH = 2.2,
       o_aquarium = Some (Aquarium_new 4 2.2), o_sand = Some (Sand_new 4 2.2),
       o_x = None, o_y = None, o_z = None, o_onHatch = True \<rparr>"

abbreviation mid_egg_rand :: egg_rand where
  "mid_egg_rand \<equiv>
     \<lparr> r_vx = 0.5, r_vy = 0.5, r_phase = 0, r_hatch = 0.5, r_spawnX = 0.5, r_spawnY = 0.5 \<rparr>"

text \<open>
  The carp of the hatch table, and draws for the constructor of a fish object.
\<close>

abbreviation carp_spec :: fish_spec where
  "carp_spec \<equiv>
     \<lparr> sp_kind = ''common'', sp_url = ''assets/fish/carp.glb'', sp_zLayer = Some (- 0.36) \<rparr>"

abbreviation mid_fish_init :: fish_init where
  "mid_fish_init \<equiv>
     \<lparr> i_side = 0.25, i_speed = 0.5, i_vx = 0.5, i_vy = 0.5, i_phase = 0.5,
       i_bob = 0.5, i_spawnX = 0.5, i_spawnY = 0.5 \<rparr>"

text \<open>
  A tank of 4 by 2.2 world units and a tank that is only 0.5 units high, for a
  \<open>CommonFish\<close> and a \<open>SchoolingFish\<close>; three members of the school \<open>shoal\<close>,
  built one after the other; the school they register; and the draws of a tick whose
  respawn heads right and picks the target \<open>(0.8512, 0)\<close> with a timer of 4 seconds.
\<close>

abbreviation tank_common_opts :: common_opts where
  "tank_common_opts \<equiv>
     \<lparr> co_width = 4, co_height = 2.2, co_aquarium = Some (Aquarium_new 4 2.2),
       co_facingFix = None \<rparr>"

abbreviation low_common_opts :: common_opts where
  "low_common_opts \<equiv>
     \<lparr> co_width = 2, co_height = 0.5, co_aquarium = None, co_facingFix = None \<rparr>"

abbreviation mid_common_rand :: common_rand where
  "mid_common_rand \<equiv> \<lparr> cr_dir = 0.25, cr_phase = 0.5, cr_spawnX = 0.5, cr_spawnY = 0.5 \<rparr>"

abbreviation low_school_opts :: school_opts where
  "low_school_opts \<equiv>
     \<lparr> so_width = 2, so_height = 0.5, so_aquarium = None,
       so_url = None, so_facingFix = None, so_speedMul = None, so_schoolId = ''shoal'',
       so_memberIndex = Some 0, so_schoolSize = Some 3 \<rparr>"

abbreviation mid_school_rand :: school_rand where
  "mid_school_rand \<equiv>
     \<lparr> sr_phase = 0.5, sr_jitter = 0.5, sr_bobAmp = 0.5, sr_bobRate = 0.5, sr_face = 0.5,
       sr_spawnX = 0.5, sr_spawnY = 0.5, sr_vx = 0.5, sr_vy = 0.5 \<rparr>"

abbreviation quiet_tick :: tick_rand where
  "quiet_tick \<equiv> \<lparr> tr_side = 0.25, tr_vy = 0.5, tr_respawnPick = (15 / 16, 7 / 64, 1 / 2),
                   tr_timerPick = (1 / 2, 1 / 2, 1 / 2) \<rparr>"

abbreviation shoal_opts :: "real \<Rightarrow> school_opts" where
  "shoal_opts i \<equiv>
     \<lparr> so_width = 4, so_height = 2.2, so_aquarium = Some (Aquarium_new 4 2.2),
       so_url = None, so_facingFix = None, so_speedMul = None, so_schoolId = ''shoal'',
       so_memberIndex = Some i, so_schoolSize = Some 3 \<rparr>"

abbreviation shoal_a :: "school_fish \<times> schools" where
  "shoal_a \<equiv> SchoolingFish_new (shoal_opts 0) mid_school_rand Map.empty"

abbreviation shoal_b :: "school_fish \<times> schools" where
  "shoal_b \<equiv> SchoolingFish_new (shoal_opts 1) mid_school_rand (snd shoal_a)"

abbreviation shoal_c :: "school_fish \<times> schools" where
  "shoal_c \<equiv> SchoolingFish_new (shoal_opts 2) mid_school_rand (snd shoal_b)"

abbreviation shoal0 :: school where
  "shoal0 \<equiv> \<lparr> sc_id = ''shoal'', sc_width = 4, sc_height = 2.2,
       sc_aquarium = Some (Aquarium_new 4 2.2),
       sc_sizeHint = 3, sc_needsRespawn = True, sc_leaderHalfH = 0.08, sc_topBuffer = 0.14,
       sc_lx = 0, sc_ly = 0, sc_lvx = 0.30, sc_lvy = 0.06,
       sc_timer = 0, sc_tx = 0, sc_ty = 0 \<rparr>"

text \<open>
  The same draws for every egg and every fish that a rebuild constructs, and the state
  of the program once the page has loaded in a window of 800 by 400 pixels: the script
  calls \<open>resize\<close> once, before any egg can be bought.
\<close>

abbreviation egg_draws :: "nat \<Rightarrow> egg_rand" where
  "egg_draws \<equiv> \<lambda>i. mid_egg_rand"

abbreviation fish_draws :: "nat \<Rightarrow> fish_init \<times> real" where
  "fish_draws \<equiv> \<lambda>i. (mid_fish_init, 0.5)"

abbreviation loaded :: app where
  "loaded \<equiv> resize 800 400 egg_draws fish_draws 0 app_start"

text \<open>
  Other draws: a fish whose side draw falls on the other side, and an egg whose spawn
  draw puts it near the right wall. Then two states of the program. In \<open>proto_tank\<close>
  the page has loaded, a basic egg has hatched at \<open>(1.15, - 0.598)\<close> in the prototype
  mode and another egg has been bought. In \<open>full_tank\<close> the mode has been switched to the
  full mode and a basic egg has hatched at \<open>(0.3, - 0.598)\<close>. In a tank 2.2 high an egg
  rests at \<open>y = - 0.598444\<close>, and the hatch position is the place of its group, which
  jitters by at most 0.0013 around it.
\<close>

abbreviation right_fish_init :: fish_init where
  "right_fish_init \<equiv>
     \<lparr> i_side = 0.75, i_speed = 0.5, i_vx = 0.5, i_vy = 0.5, i_phase = 0.5,
       i_bob = 0.5, i_spawnX = 0.5, i_spawnY = 0.5 \<rparr>"

abbreviation right_draws :: "nat \<Rightarrow> fish_init \<times> real" where
  "right_draws \<equiv> \<lambda>i. (right_fish_init, 0.5)"



abbreviation full_tank :: app where
  "full_tank \<equiv>
     spawnHatchFish ''basic'' 0.3 (- 0.598) 0 mid_fish_init 12
       (toggleMode Full egg_draws fish_draws 5 loaded)"


section \<open>Eggs: what every helper keeps\<close>

lemma Egg_applyPos_keeps:
  "e_landed (Egg_applyPos e) = e_landed e"
  "e_age (Egg_applyPos e) = e_age e"
  "e_didHatch (Egg_applyPos e) = e_didHatch e"
  "e_dead (Egg_applyPos e) = e_dead e"
  "e_popping (Egg_applyPos e) = e_popping e"
  "e_onHatch (Egg_applyPos e) = e_onHatch e"
  "e_hatchAt (Egg_applyPos e) = e_hatchAt e"
  "e_vx (Egg_applyPos e) = e_vx e"
  "e_vy (Egg_applyPos e) = e_vy e"
  "e_phase (Egg_applyPos e) = e_phase e"
  "e_sandSinkFactor (Egg_applyPos e) = e_sandSinkFactor e"
  "e_eggType (Egg_applyPos e) = e_eggType e"
  "e_x (Egg_applyPos e) = e_x e"
  "e_y (Egg_applyPos e) = e_y e"
  "e_xMin (Egg_applyPos e) = e_xMin e"
  "e_xMax (Egg_applyPos e) = e_xMax e"
  "e_yMin (Egg_applyPos e) = e_yMin e"
  "e_yMax (Egg_applyPos e) = e_yMax e"
  "e_r (Egg_applyPos e) = e_r e"
  "e_gx (Egg_applyPos e) = e_x e"
  "e_gy (Egg_applyPos e) = e_y e"
  by (simp_all add: Egg_applyPos_def)

lemma Egg_syncEnv_keeps:
  "e_landed (Egg_syncEnv e) = e_landed e"
  "e_age (Egg_syncEnv e) = e_age e"
  "e_didHatch (Egg_syncEnv e) = e_didHatch e"
  "e_dead (Egg_syncEnv e) = e_dead e"
  "e_popping (Egg_syncEnv e) = e_popping e"
  "e_onHatch (Egg_syncEnv e) = e_onHatch e"
  "e_hatchAt (Egg_syncEnv e) = e_hatchAt e"
  "e_vx (Egg_syncEnv e) = e_vx e"
  "e_vy (Egg_syncEnv e) = e_vy e"
  "e_phase (Egg_syncEnv e) = e_phase e"
  "e_sandSinkFactor (Egg_syncEnv e) = e_sandSinkFactor e"
  "e_eggType (Egg_syncEnv e) = e_eggType e"
  "e_x (Egg_syncEnv e) = e_x e"
  "e_y (Egg_syncEnv e) = e_y e"
  "e_r (Egg_syncEnv e) = e_r e"
  by (cases "e_aquarium e"; simp add: Egg_syncEnv_def Let_def)+

lemma Egg_spawnDefault_keeps:
  "e_landed (Egg_spawnDefault rnd e) = e_landed e"
  "e_age (Egg_spawnDefault rnd e) = e_age e"
  "e_didHatch (Egg_spawnDefault rnd e) = e_didHatch e"
  "e_dead (Egg_spawnDefault rnd e) = e_dead e"
  "e_popping (Egg_spawnDefault rnd e) = e_popping e"
  "e_onHatch (Egg_spawnDefault rnd e) = e_onHatch e"
  "e_hatchAt (Egg_spawnDefault rnd e) = e_hatchAt e"
  "e_eggType (Egg_spawnDefault rnd e) = e_eggType e"
  "e_r (Egg_spawnDefault rnd e) = e_r e"
  by (simp_all add: Egg_spawnDefault_def)

lemma Egg_new_state:
  "e_landed (Egg_new opts rnd) = False"
  "e_age (Egg_new opts rnd) = 0"
  "e_didHatch (Egg_new opts rnd) = False"
  "e_dead (Egg_new opts rnd) = False"
  "e_popping (Egg_new opts rnd) = False"
  "e_onHatch (Egg_new opts rnd) = o_onHatch opts"
  "e_hatchAt (Egg_new opts rnd) = 7.5 + r_hatch rnd * 5.0"
  by (simp_all add: Egg_new_def Let_def Egg_applyPos_keeps Egg_syncEnv_keeps
      Egg_spawnDefault_keeps)

lemma Egg_incubate_fields:
  "e_landed (fst (Egg_incubate t e)) = e_landed e"
  "e_age (fst (Egg_incubate t e)) = e_age e"
  "e_hatchAt (fst (Egg_incubate t e)) = e_hatchAt e"
  "e_dead (fst (Egg_incubate t e)) = e_dead e"
  "e_onHatch (fst (Egg_incubate t e)) = e_onHatch e"
  "e_didHatch (fst (Egg_incubate t e)) = (e_didHatch e \<or> e_age e \<ge> e_hatchAt e)"
  "e_popping (fst (Egg_incubate t e))
     = (e_popping e \<or> (\<not> e_didHatch e \<and> e_age e \<ge> e_hatchAt e))"
  "length (snd (Egg_incubate t e))
     = (if e_onHatch e \<and> \<not> e_didHatch e \<and> e_age e \<ge> e_hatchAt e then 1 else 0)"
  by (auto simp add: Egg_incubate_def Let_def split: option.splits)

lemma Egg_update_landed:
  assumes "e_landed e" "\<not> e_dead e" "dt \<noteq> 0"
  shows "e_landed (fst (Egg_update dt t e))"
    and "e_age (fst (Egg_update dt t e)) = e_age e + dt"
    and "e_hatchAt (fst (Egg_update dt t e)) = e_hatchAt e"
    and "\<not> e_dead (fst (Egg_update dt t e))"
    and "e_onHatch (fst (Egg_update dt t e)) = e_onHatch e"
    and "e_didHatch (fst (Egg_update dt t e)) = (e_didHatch e \<or> e_age e + dt \<ge> e_hatchAt e)"
    and "e_popping (fst (Egg_update dt t e))
           = (e_popping e \<or> (\<not> e_didHatch e \<and> e_age e + dt \<ge> e_hatchAt e))"
    and "length (snd (Egg_update dt t e))
           = (if e_onHatch e \<and> \<not> e_didHatch e \<and> e_age e + dt \<ge> e_hatchAt e then 1 else 0)"
  using assms by (simp_all add: Egg_update_def Egg_incubate_fields)

lemma Egg_update_dead: "e_dead e \<Longrightarrow> Egg_update dt t e = (e, [])"
  by (simp add: Egg_update_def)

lemma Egg_popTick_dead:
  "e_popping e \<Longrightarrow> 260 \<le> elapsed \<Longrightarrow> e_dead (Egg_popTick elapsed e)"
  by (simp add: Egg_popTick_def Let_def min_def)

section \<open>A dead egg is frozen\<close>

text \<open>
  Claim C10. Once \<open>_dead\<close> is set, \<open>update(dt, t)\<close> returns before it touches any
  field: the egg after the call is the egg before it, whatever \<open>dt\<close> and \<open>t\<close> are, no
  hatch callback is invoked, and the same holds for any sequence of frames.
\<close>

theorem egg_dead_frozen:
  assumes "e_dead e"
  shows "Egg_update dt t e = (e, []) \<and> Egg_drive e fs = e \<and> concat (hatch_trace e fs) = []"
proof -
  have "Egg_drive e fs = e \<and> concat (hatch_trace e fs) = []"
    by (induction fs) (simp_all add: Egg_update_dead [OF assms])
  then show ?thesis by (simp add: Egg_update_dead [OF assms])
qed

text \<open>
  The witness is an egg that has hatched in the frame at \<open>t = 9\<close> and whose shrink-out
  reached 260 ms; two further frames leave it as it is.
\<close>

theorem egg_dead_frozen_witness:
  "e_dead (Egg_popTick 260 (fst (Egg_update 1 9
      ((Egg_new basic_egg_opts mid_egg_rand)\<lparr> e_landed := True, e_age := 10 \<rparr>))))
   \<and> Egg_drive (Egg_popTick 260 (fst (Egg_update 1 9
        ((Egg_new basic_egg_opts mid_egg_rand)\<lparr> e_landed := True, e_age := 10 \<rparr>))))
        [(0.016, 9.016), (0.016, 9.032)]
      = Egg_popTick 260 (fst (Egg_update 1 9
          ((Egg_new basic_egg_opts mid_egg_rand)\<lparr> e_landed := True, e_age := 10 \<rparr>)))
   \<and> concat (hatch_trace (Egg_popTick 260 (fst (Egg_update 1 9
        ((Egg_new basic_egg_opts mid_egg_rand)\<lparr> e_landed := True, e_age := 10 \<rparr>))))
        [(0.016, 9.016), (0.016, 9.032)]) = []"
proof -
  let ?e = "(Egg_new basic_egg_opts mid_egg_rand)\<lparr> e_landed := True, e_age := 10 \<rparr>"
  have "e_popping (fst (Egg_update 1 9 ?e))"
    by (simp add: Egg_update_landed Egg_new_state)
  then have d: "e_dead (Egg_popTick 260 (fst (Egg_update 1 9 ?e)))"
    by (rule Egg_popTick_dead) simp
  show ?thesis
    using d egg_dead_frozen [OF d, of _ _ "[(0.016, 9.016), (0.016, 9.032)]"] by blast
qed

section \<open>Hatching exactly once\<close>

lemma first_true_once: "sum_list (map of_bool (first_true bs)) = (of_bool (True \<in> set bs) :: nat)"
  by (induction bs) (simp_all add: sum_list_replicate)

lemma first_true_le: "sum_list (map of_bool (first_true bs)) \<le> (1 :: nat)"
  by (simp add: first_true_once)

lemma Egg_states_length: "length (Egg_states e fs) = length fs"
  by (induction fs arbitrary: e) simp_all

lemma hatched_never_again:
  "e_landed e \<Longrightarrow> \<not> e_dead e \<Longrightarrow> e_didHatch e \<Longrightarrow> \<forall>f \<in> set fs. fst f \<noteq> 0 \<Longrightarrow>
   map length (hatch_trace e fs) = replicate (length fs) 0"
proof (induction fs arbitrary: e)
  case Nil
  then show ?case by simp
next
  case (Cons f fs)
  then show ?case by (simp add: Egg_update_landed)
qed

lemma Egg_states_hatchAt:
  "e_landed e \<Longrightarrow> \<not> e_dead e \<Longrightarrow> \<forall>f \<in> set fs. fst f \<noteq> 0 \<Longrightarrow>
   \<forall>s \<in> set (Egg_states e fs). e_hatchAt s = e_hatchAt e"
proof (induction fs arbitrary: e)
  case Nil
  then show ?case by simp
next
  case (Cons f fs)
  let ?e' = "fst (Egg_update (fst f) (snd f) e)"
  have nz: "fst f \<noteq> 0" using Cons.prems by simp
  note upd = Egg_update_landed [OF Cons.prems(1) Cons.prems(2) nz, of "snd f"]
  have "\<forall>s \<in> set (Egg_states ?e' fs). e_hatchAt s = e_hatchAt ?e'"
    using Cons.IH [of ?e'] upd Cons.prems by simp
  then show ?case using upd by simp
qed

lemma hatch_trace_first:
  assumes "e_landed e" "\<not> e_dead e" "\<not> e_didHatch e" "e_onHatch e"
    and "\<forall>f \<in> set fs. fst f \<noteq> 0"
  shows "map length (hatch_trace e fs)
           = map of_bool (first_true (map (\<lambda>s. e_hatchAt e \<le> e_age s) (Egg_states e fs)))"
  using assms
proof (induction fs arbitrary: e)
  case Nil
  then show ?case by simp
next
  case (Cons f fs)
  let ?e' = "fst (Egg_update (fst f) (snd f) e)"
  have nz: "fst f \<noteq> 0" using Cons.prems by simp
  note upd = Egg_update_landed [OF Cons.prems(1) Cons.prems(2) nz, of "snd f"]
  show ?case
  proof (cases "e_hatchAt e \<le> e_age ?e'")
    case True
    have "map length (hatch_trace ?e' fs) = replicate (length fs) 0"
      using hatched_never_again [of ?e' fs] upd True Cons.prems by simp
    then show ?thesis using True upd Cons.prems
      by (simp add: map_replicate_const Egg_states_length)
  next
    case False
    have "map length (hatch_trace ?e' fs)
            = map of_bool (first_true (map (\<lambda>s. e_hatchAt ?e' \<le> e_age s) (Egg_states ?e' fs)))"
      using Cons.IH [of ?e'] upd False Cons.prems by simp
    then show ?thesis using False upd Cons.prems by simp
  qed
qed

lemma states_crossing:
  assumes "e_landed e" "\<not> e_dead e" and "\<forall>f \<in> set fs. fst f \<noteq> 0"
  shows "first_true (map (\<lambda>s. h \<le> e_age s) (Egg_states e fs))
           = first_crossing (e_age e) h (map fst fs)"
  using assms
proof (induction fs arbitrary: e)
  case Nil
  then show ?case by simp
next
  case (Cons f fs)
  let ?e' = "fst (Egg_update (fst f) (snd f) e)"
  have nz: "fst f \<noteq> 0" using Cons.prems by simp
  note upd = Egg_update_landed [OF Cons.prems(1) Cons.prems(2) nz, of "snd f"]
  have "first_true (map (\<lambda>s. h \<le> e_age s) (Egg_states ?e' fs))
          = first_crossing (e_age ?e') h (map fst fs)"
    using Cons.IH [of ?e'] upd Cons.prems by simp
  then show ?case using upd by (simp add: Egg_states_length)
qed

text \<open>
  Claim C2. A landed egg with a hatch callback is driven by frames of non-zero \<open>dt\<close>.
  In every frame the callback is invoked exactly when the egg has not hatched before
  and the age that the frame leaves in \<open>_age\<close> is at least \<open>_hatchAt\<close>, and the frame
  then sets \<open>_didHatch\<close>. Over the frames the callback is therefore invoked in the first
  frame that leaves such an age and in no other: once if there is such a frame, never
  twice. Ages are real numbers here; the source adds in doubles, so the frame in which a
  sum of rounded steps reaches the threshold is read off the field \<open>_age\<close> and not
  computed from the steps.
\<close>

theorem egg_hatch_exactly_once:
  assumes "e_landed e" "\<not> e_dead e" "e_onHatch e"
    and "\<forall>f \<in> set fs. fst f \<noteq> 0"
  shows "(dt \<noteq> 0 \<longrightarrow>
            length (snd (Egg_update dt t e))
              = of_bool (\<not> e_didHatch e \<and> e_hatchAt e \<le> e_age (fst (Egg_update dt t e)))
          \<and> e_didHatch (fst (Egg_update dt t e))
              = (e_didHatch e \<or> e_hatchAt e \<le> e_age (fst (Egg_update dt t e))))
       \<and> map length (hatch_trace e fs)
           = (if e_didHatch e then replicate (length fs) 0
              else map of_bool
                     (first_true (map (\<lambda>s. e_hatchAt e \<le> e_age s) (Egg_states e fs))))
       \<and> sum_list (map length (hatch_trace e fs))
           = of_bool (\<not> e_didHatch e \<and> (\<exists>s \<in> set (Egg_states e fs). e_hatchAt e \<le> e_age s))
       \<and> sum_list (map length (hatch_trace e fs)) \<le> 1"
proof -
  have frame: "dt \<noteq> 0 \<longrightarrow>
            length (snd (Egg_update dt t e))
              = of_bool (\<not> e_didHatch e \<and> e_hatchAt e \<le> e_age (fst (Egg_update dt t e)))
          \<and> e_didHatch (fst (Egg_update dt t e))
              = (e_didHatch e \<or> e_hatchAt e \<le> e_age (fst (Egg_update dt t e)))"
    using Egg_update_landed [OF assms(1) assms(2), of dt t] assms(3) by simp
  have trace: "map length (hatch_trace e fs)
           = (if e_didHatch e then replicate (length fs) 0
              else map of_bool
                     (first_true (map (\<lambda>s. e_hatchAt e \<le> e_age s) (Egg_states e fs))))"
    using hatched_never_again [OF assms(1) assms(2) _ assms(4)]
      hatch_trace_first [OF assms(1) assms(2) _ assms(3) assms(4)] by simp
  have count: "sum_list (map length (hatch_trace e fs))
           = of_bool (\<not> e_didHatch e \<and> (\<exists>s \<in> set (Egg_states e fs). e_hatchAt e \<le> e_age s))"
  proof (cases "e_didHatch e")
    case True
    then show ?thesis unfolding trace by (simp add: sum_list_replicate)
  next
    case False
    have "sum_list (map length (hatch_trace e fs))
            = of_bool (True \<in> set (map (\<lambda>s. e_hatchAt e \<le> e_age s) (Egg_states e fs)))"
      unfolding trace using False by (simp add: first_true_once)
    also have "\<dots> = of_bool (\<exists>s \<in> set (Egg_states e fs). e_hatchAt e \<le> e_age s)"
      by (rule arg_cong [where f = of_bool]) auto
    finally show ?thesis using False by simp
  qed
  have once: "sum_list (map length (hatch_trace e fs)) \<le> 1"
    unfolding count by simp
  from frame trace count once show ?thesis by (intro conjI)
qed

lemma first_crossing_100:
  "first_crossing 0 8 (replicate 100 (1 / 8)) = replicate 63 False @ True # replicate 36 False"
  by code_simp

text \<open>
  The witness: \<open>hatchAt = 8\<close> and 100 frames of \<open>dt = 1/8\<close>, a step that doubles add
  without rounding. The callback is invoked in the 64th frame, the one that brings the
  age to 8, and in no other.
\<close>

theorem egg_hatch_exactly_once_witness:
  "map length (hatch_trace
      ((Egg_new basic_egg_opts mid_egg_rand)\<lparr> e_landed := True, e_hatchAt := 8 \<rparr>)
      (replicate 100 (1 / 8, 0)))
   = replicate 63 0 @ 1 # replicate 36 0
   \<and> sum_list (map length (hatch_trace
      ((Egg_new basic_egg_opts mid_egg_rand)\<lparr> e_landed := True, e_hatchAt := 8 \<rparr>)
      (replicate 100 (1 / 8, 0)))) = 1"
proof -
  let ?e = "(Egg_new basic_egg_opts mid_egg_rand)\<lparr> e_landed := True, e_hatchAt := 8 \<rparr>"
  let ?fs = "replicate 100 (1 / 8 :: real, 0 :: real)"
  have h: "e_landed ?e" "\<not> e_dead ?e" "e_onHatch ?e"
    by (simp_all add: Egg_new_state)
  have d: "\<not> e_didHatch ?e" by (simp add: Egg_new_state)
  have nz: "\<forall>f \<in> set ?fs. fst f \<noteq> 0" by simp
  have a: "e_age ?e = 0" "e_hatchAt ?e = 8" by (simp_all add: Egg_new_state)
  have c: "first_true (map (\<lambda>s. e_hatchAt ?e \<le> e_age s) (Egg_states ?e ?fs))
             = replicate 63 False @ True # replicate 36 False"
    unfolding states_crossing [OF h(1) h(2) nz] a map_replicate fst_conv
    by (rule first_crossing_100)
  note th = egg_hatch_exactly_once [OF h nz, of 1 0]
  from th have tr: "map length (hatch_trace ?e ?fs)
           = (if e_didHatch ?e then replicate (length ?fs) 0
              else map of_bool
                     (first_true (map (\<lambda>s. e_hatchAt ?e \<le> e_age s) (Egg_states ?e ?fs))))"
    by (elim conjE) assumption
  have 1: "map length (hatch_trace ?e ?fs) = replicate 63 0 @ 1 # replicate 36 0"
    unfolding tr c using d by (simp add: map_replicate_const)
  have 2: "sum_list (map length (hatch_trace ?e ?fs)) = 1"
    unfolding 1 by (simp add: sum_list_replicate)
  from 1 2 show ?thesis by (intro conjI)
qed

section \<open>Growth is monotone\<close>








section \<open>Sellable exactly when adult\<close>

lemma rebuildSellList_ids:
  "map si_fishId (rebuildSellList now fs) = map hf_id (filter (adult now) fs)"
  by (induction fs) (simp_all add: adult_def)

lemma entry_fields:
  "hf_id (spawnHatchFish_entry i ty obj sp nm now baseX baseY) = i"
  "hf_obj (spawnHatchFish_entry i ty obj sp nm now baseX baseY) \<noteq> None"
  "hf_bornAt (spawnHatchFish_entry i ty obj sp nm now baseX baseY) = now"
  "hf_growDur (spawnHatchFish_entry i ty obj sp nm now baseX baseY) = growthDurationForEggType ty"
  by (simp_all add: spawnHatchFish_entry_def Let_def)

text \<open>
  Claim C3. Among the entries of \<open>hatchFish\<close> (each holding its object, and no two
  with the same id), the list rebuilt at time \<open>now\<close> contains the id of a fish exactly
  when \<open>now - bornAt \<ge> growDur\<close>.
\<close>

theorem sellable_iff_adult:
  assumes "hf \<in> set fs" and "hf_obj hf \<noteq> None" and "distinct (map hf_id fs)"
  shows "hf_id hf \<in> set (map si_fishId (rebuildSellList now fs))
           \<longleftrightarrow> now - hf_bornAt hf \<ge> hf_growDur hf"
proof -
  have inj: "inj_on hf_id (set fs)" using assms(3) by (simp add: distinct_map)
  have "hf_id hf \<in> hf_id ` set (filter (adult now) fs) \<longleftrightarrow> adult now hf"
  proof
    assume "hf_id hf \<in> hf_id ` set (filter (adult now) fs)"
    then obtain h where h: "h \<in> set fs" "adult now h" "hf_id h = hf_id hf" by auto
    then have "h = hf" using inj assms(1) by (simp add: inj_on_eq_iff)
    then show "adult now hf" using h(2) by simp
  next
    assume "adult now hf"
    then have "hf \<in> set (filter (adult now) fs)" using assms(1) by simp
    then show "hf_id hf \<in> hf_id ` set (filter (adult now) fs)" by (rule imageI)
  qed
  moreover have "adult now hf \<longleftrightarrow> now - hf_bornAt hf \<ge> hf_growDur hf"
    using assms(2) by (simp add: adult_def not_less)
  ultimately show ?thesis by (simp only: rebuildSellList_ids set_map)
qed

text \<open>
  The witness is the test of the specification: a basic fish born at time 0 is not
  listed at age \<open>growDur - 0.01\<close> and is listed at age \<open>growDur\<close>.
\<close>

theorem sellable_iff_adult_witness:
  "1 \<notin> set (map si_fishId (rebuildSellList 9.99
       [spawnHatchFish_entry 1 ''basic'' (Fish_new CommonFish 4 2.2 (Some (Aquarium_new 4 2.2)) (Some (- 0.36)) mid_fish_init)
          carp_spec ''carp'' 0 0.3 0.2]))
   \<and> 1 \<in> set (map si_fishId (rebuildSellList 10
       [spawnHatchFish_entry 1 ''basic'' (Fish_new CommonFish 4 2.2 (Some (Aquarium_new 4 2.2)) (Some (- 0.36)) mid_fish_init)
          carp_spec ''carp'' 0 0.3 0.2]))"
proof -
  let ?hf = "spawnHatchFish_entry 1 ''basic'' (Fish_new CommonFish 4 2.2 (Some (Aquarium_new 4 2.2)) (Some (- 0.36)) mid_fish_init)
       carp_spec ''carp'' 0 0.3 0.2"
  have g: "hf_growDur ?hf = 10" by (simp add: entry_fields growthDurationForEggType_def)
  have i: "hf_id ?hf = 1" by (simp only: entry_fields)
  have b: "hf_bornAt ?hf = 0" by (simp only: entry_fields)
  have m: "?hf \<in> set [?hf]" by (rule list.set_intros)
  have o: "hf_obj ?hf \<noteq> None" by (rule entry_fields(2))
  have d: "distinct (map hf_id [?hf])" by simp
  have n1: "\<not> (10 \<le> 9.99 - (0::real))" by simp
  have n2: "10 \<le> 10 - (0::real)" by simp
  have a1: "(1 \<in> set (map si_fishId (rebuildSellList 9.99 [?hf]))) = (10 \<le> 9.99 - (0::real))"
    using sellable_iff_adult [OF m o d, of "9.99"] by (simp only: i b g)
  have a2: "(1 \<in> set (map si_fishId (rebuildSellList 10 [?hf]))) = (10 \<le> 10 - (0::real))"
    using sellable_iff_adult [OF m o d, of 10] by (simp only: i b g)
  have c1: "1 \<notin> set (map si_fishId (rebuildSellList 9.99 [?hf]))"
    unfolding a1 by (rule n1)
  have c2: "1 \<in> set (map si_fishId (rebuildSellList 10 [?hf]))"
    unfolding a2 by (rule n2)
  show ?thesis using c1 c2 by (rule conjI)
qed


section \<open>Bounds of CommonFish and SchoolingFish\<close>

lemma SchoolingFish_bounds_keeps:
  "m_schoolId (SchoolingFish_bounds m) = m_schoolId m"
  "m_width (SchoolingFish_bounds m) = m_width m"
  "m_height (SchoolingFish_bounds m) = m_height m"
  "m_aquarium (SchoolingFish_bounds m) = m_aquarium m"
  "m_halfH (SchoolingFish_bounds m) = m_halfH m"
  "m_schoolSize (SchoolingFish_bounds m) = m_schoolSize m"
  "m_topBuffer (SchoolingFish_bounds m) = max (0.04 * m_height m) 0.14"
  "m_yMin (SchoolingFish_bounds m)
     = - m_height m / 2 + m_height m * 0.22 + max (0.08 * m_height m) 0.12 + m_halfH m"
  "m_yMax (SchoolingFish_bounds m)
     = (case m_aquarium m of
          Some a \<Rightarrow> innerTop a - max (0.04 * m_height m) 0.14 - m_halfH m
        | None \<Rightarrow> (m_height m / 2) - max (0.04 * m_height m) 0.14 - m_halfH m)"
  by (simp_all add: SchoolingFish_bounds_def Let_def split: option.split cong: let_weak_cong)

lemma SchoolingFish_applyFacingNow_keeps:
  "m_schoolId (SchoolingFish_applyFacingNow m) = m_schoolId m"
  "m_width (SchoolingFish_applyFacingNow m) = m_width m"
  "m_height (SchoolingFish_applyFacingNow m) = m_height m"
  "m_aquarium (SchoolingFish_applyFacingNow m) = m_aquarium m"
  "m_halfH (SchoolingFish_applyFacingNow m) = m_halfH m"
  "m_schoolSize (SchoolingFish_applyFacingNow m) = m_schoolSize m"
  "m_topBuffer (SchoolingFish_applyFacingNow m) = m_topBuffer m"
  "m_yMin (SchoolingFish_applyFacingNow m) = m_yMin m"
  "m_yMax (SchoolingFish_applyFacingNow m) = m_yMax m"
  by (simp_all add: SchoolingFish_applyFacingNow_def)

lemma CommonFish_syncBounds_fields:
  "c_dir (CommonFish_syncBounds c) = c_dir c"
  "c_width (CommonFish_syncBounds c) = c_width c"
  "c_height (CommonFish_syncBounds c) = c_height c"
  "c_aquarium (CommonFish_syncBounds c) = c_aquarium c"
  "c_turnCooldown (CommonFish_syncBounds c) = c_turnCooldown c"
  "c_spawnLocked (CommonFish_syncBounds c) = c_spawnLocked c"
  "c_speed (CommonFish_syncBounds c) = clamp (c_width c * 0.12) 0.18 0.75"
  "c_xMax (CommonFish_syncBounds c) = c_width c / 2 - max (0.08 * c_width c) 0.18 - c_halfW c"
  "c_yMin (CommonFish_syncBounds c)
     = - c_height c / 2 + c_height c * 0.22 + max (0.08 * c_height c) 0.12 + c_halfH c"
  "c_yMax (CommonFish_syncBounds c)
     = (case c_aquarium c of
          Some a \<Rightarrow> innerTop a - c_halfH c
        | None \<Rightarrow> c_height c / 2 - max (0.10 * c_height c) 0.16 - c_halfH c)"
  by (simp_all add: CommonFish_syncBounds_def Let_def split: option.split cong: let_weak_cong)

lemma CommonFish_applyFacing_fields:
  "c_dir (CommonFish_applyFacing c) = c_dir c"
  "c_width (CommonFish_applyFacing c) = c_width c"
  "c_height (CommonFish_applyFacing c) = c_height c"
  "c_aquarium (CommonFish_applyFacing c) = c_aquarium c"
  "c_turnCooldown (CommonFish_applyFacing c) = c_turnCooldown c"
  "c_spawnLocked (CommonFish_applyFacing c) = c_spawnLocked c"
  "c_speed (CommonFish_applyFacing c) = c_speed c"
  "c_xMax (CommonFish_applyFacing c) = c_xMax c"
  "c_yMin (CommonFish_applyFacing c) = c_yMin c"
  "c_yMax (CommonFish_applyFacing c) = c_yMax c"
  by (simp_all add: CommonFish_applyFacing_def)

lemma CommonFish_new_fields:
  "c_turnCooldown (CommonFish_new opts rnd) = 0"
  "c_width (CommonFish_new opts rnd) = co_width opts"
  "c_height (CommonFish_new opts rnd) = co_height opts"
  "c_aquarium (CommonFish_new opts rnd) = co_aquarium opts"
  "c_dir (CommonFish_new opts rnd) = (if cr_dir rnd < 0.5 then 1 else - 1)"
  "c_speed (CommonFish_new opts rnd) = clamp (co_width opts * 0.12) 0.18 0.75"
  "c_xMax (CommonFish_new opts rnd) = co_width opts / 2 - max (0.08 * co_width opts) 0.18 - 0.12"
  "c_yMin (CommonFish_new opts rnd)
     = - co_height opts / 2 + co_height opts * 0.22 + max (0.08 * co_height opts) 0.12 + 0.08"
  "c_yMax (CommonFish_new opts rnd)
     = (case co_aquarium opts of
          Some a \<Rightarrow> innerTop a - 0.08
        | None \<Rightarrow> co_height opts / 2 - max (0.10 * co_height opts) 0.16 - 0.08)"
  by (simp_all add: CommonFish_new_def Let_def CommonFish_syncBounds_fields
      CommonFish_applyFacing_fields split: option.split cong: let_weak_cong)

lemma SchoolingFish_new_bounds:
  "m_yMin (fst (SchoolingFish_new opts rnd st))
     = - so_height opts / 2 + so_height opts * 0.22 + max (0.08 * so_height opts) 0.12 + 0.08"
  "m_yMax (fst (SchoolingFish_new opts rnd st))
     = (case so_aquarium opts of
          Some a \<Rightarrow> innerTop a - max (0.04 * so_height opts) 0.14 - 0.08
        | None \<Rightarrow> (so_height opts / 2) - max (0.04 * so_height opts) 0.14 - 0.08)"
  by (simp_all add: SchoolingFish_new_def Let_def SchoolingFish_bounds_keeps
      SchoolingFish_applyFacingNow_keeps split: option.split cong: let_weak_cong)

text \<open>
  \<open>ReefFish._syncBounds\<close> ends with a guard that re-centres a band of height
  \<open>0.1\<close> when the half-extents would invert the order, so its bounds are always
  ordered.
\<close>

lemma ReefFish_bounds_ordered:
  "fst (snd (snd (ReefFish_syncBounds w h halfW halfH)))
     \<le> snd (snd (snd (ReefFish_syncBounds w h halfW halfH)))"
  by (simp add: ReefFish_syncBounds_def Let_def cong: let_weak_cong)

text \<open>
  Claim C7. \<open>CommonFish._syncBounds\<close> and \<open>SchoolingFish._syncBounds\<close> have no
  such guard. In a tank 0.5 units high the constructor of either class leaves
  \<open>_yMin\<close> above \<open>_yMax\<close>, and so does \<open>CommonFish._syncBounds\<close> in the tank of
  4 by 2.2 units for a fish whose half-height is 0.8.
\<close>

theorem bounds_can_invert:
  "c_yMin (CommonFish_new low_common_opts mid_common_rand) = 0.06
   \<and> c_yMax (CommonFish_new low_common_opts mid_common_rand) = 0.01
   \<and> m_yMin (fst (SchoolingFish_new low_school_opts mid_school_rand Map.empty)) = 0.06
   \<and> m_yMax (fst (SchoolingFish_new low_school_opts mid_school_rand Map.empty)) = 0.03
   \<and> c_yMin (CommonFish_syncBounds ((CommonFish_new tank_common_opts mid_common_rand)\<lparr> c_halfH := 0.8 \<rparr>)) = 0.36
   \<and> c_yMax (CommonFish_syncBounds ((CommonFish_new tank_common_opts mid_common_rand)\<lparr> c_halfH := 0.8 \<rparr>)) = 0.212"
  by (simp add: CommonFish_new_fields SchoolingFish_new_bounds CommonFish_syncBounds_fields Aquarium_new_def)

section \<open>Direction flips are debounced\<close>

lemma CommonFish_update_keep:
  assumes "0 < dt" "dt < c_turnCooldown c"
  shows "c_dir (CommonFish_update dt t c) = c_dir c"
    and "c_turnCooldown c - dt \<le> c_turnCooldown (CommonFish_update dt t c)"
  using assms
  by (simp_all add: CommonFish_update_def Let_def CommonFish_flip_def CommonFish_applyFacing_def
      CommonFish_clampToBounds_def)

lemma CommonFish_update_turn:
  assumes "c_dir (CommonFish_update dt t c) \<noteq> c_dir c"
  shows "c_turnCooldown (CommonFish_update dt t c) = 0.12"
  using assms
  by (auto simp add: CommonFish_update_def Let_def CommonFish_flip_def CommonFish_applyFacing_def
      CommonFish_clampToBounds_def split: if_splits)

lemma CommonFish_update_at_right:
  assumes "\<not> c_spawnLocked c" "dt \<noteq> 0" "c_turnCooldown c = 0"
    and "c_x c + c_dir c * c_speed c * dt > c_xMax c"
  shows "c_dir (CommonFish_update dt t c) = - 1"
    and "c_turnCooldown (CommonFish_update dt t c) = 0.12"
  using assms
  by (simp_all add: CommonFish_update_def Let_def CommonFish_flip_def CommonFish_applyFacing_def)

lemma dir_trace_hd: "\<exists>r. dir_trace dt c ts = c_dir c # r"
  by (cases ts) simp_all

lemma changes_replicate: "changes (replicate n x) = 0"
proof (induction n)
  case 0
  then show ?case by simp
next
  case (Suc n)
  then show ?case by (cases n) simp_all
qed

lemma dir_trace_constant:
  "0 < dt \<Longrightarrow> dt * real (length ts) < c_turnCooldown c \<Longrightarrow>
   dir_trace dt c ts = replicate (Suc (length ts)) (c_dir c)"
proof (induction ts arbitrary: c)
  case Nil
  then show ?case by simp
next
  case (Cons t ts)
  have lt: "dt < c_turnCooldown c"
  proof -
    have "dt * 1 \<le> dt * real (length (t # ts))" using Cons.prems(1) by (intro mult_left_mono) simp_all
    then show ?thesis using Cons.prems(2) by simp
  qed
  note k = CommonFish_update_keep [OF Cons.prems(1) lt, of t]
  have "dt * real (length ts) < c_turnCooldown (CommonFish_update dt t c)"
    using Cons.prems(2) k(2) by (simp add: algebra_simps)
  then have "dir_trace dt (CommonFish_update dt t c) ts
               = replicate (Suc (length ts)) (c_dir (CommonFish_update dt t c))"
    using Cons.IH Cons.prems(1) by blast
  then show ?case using k(1) by simp
qed

text \<open>
  Claim C8. A flip sets the cooldown to \<open>0.12\<close> seconds, and \<open>_flip\<close> does nothing
  while the cooldown is positive. So over frames of length \<open>dt\<close> that together, the
  first one apart, last less than \<open>0.12\<close> seconds, the direction of a \<open>CommonFish\<close>
  changes at most once, whatever its state and the clock times are. Five frames of
  \<open>0.01\<close> seconds are such frames.
\<close>

theorem flip_debounced:
  assumes "0 < dt" and "dt * (real (length ts) - 1) < 0.12"
  shows "changes (dir_trace dt c ts) \<le> 1"
  using assms
proof (induction ts arbitrary: c)
  case Nil
  then show ?case by simp
next
  case (Cons t ts)
  let ?c' = "CommonFish_update dt t c"
  obtain r where r: "dir_trace dt ?c' ts = c_dir ?c' # r" using dir_trace_hd by blast
  show ?case
  proof (cases "c_dir ?c' = c_dir c")
    case True
    have "dt * (real (length ts) - 1) \<le> dt * (real (length (t # ts)) - 1)"
      using Cons.prems(1) by (intro mult_left_mono) simp_all
    then have "dt * (real (length ts) - 1) < 0.12"
      using Cons.prems(2) by linarith
    then have "changes (dir_trace dt ?c' ts) \<le> 1"
      using Cons.IH [of ?c'] Cons.prems(1) by blast
    then show ?thesis using True r by simp
  next
    case False
    have "c_turnCooldown ?c' = 0.12" using CommonFish_update_turn False by blast
    then have "dt * real (length ts) < c_turnCooldown ?c'" using Cons.prems(2) by simp
    then have "dir_trace dt ?c' ts = replicate (Suc (length ts)) (c_dir ?c')"
      using dir_trace_constant Cons.prems(1) by blast
    then have "changes (dir_trace dt ?c' ts) = 0" by (simp only: changes_replicate)
    then show ?thesis using False r by simp
  qed
qed

text \<open>
  The witness is a fish heading right and held at \<open>_xMax = 1.56\<close>: the first of five
  frames of \<open>0.01\<close> seconds turns it, the other four do not.
\<close>

theorem flip_debounced_witness:
  "dir_trace 0.01 ((CommonFish_new tank_common_opts mid_common_rand)
        \<lparr> c_x := 1.56, c_spawnLocked := False \<rparr>) [0, 0.01, 0.02, 0.03, 0.04]
     = [1, - 1, - 1, - 1, - 1, - 1]
   \<and> changes (dir_trace 0.01 ((CommonFish_new tank_common_opts mid_common_rand)
        \<lparr> c_x := 1.56, c_spawnLocked := False \<rparr>) [0, 0.01, 0.02, 0.03, 0.04]) \<le> 1"
proof -
  let ?c = "(CommonFish_new tank_common_opts mid_common_rand)\<lparr> c_x := 1.56, c_spawnLocked := False \<rparr>"
  have d0: "c_dir ?c = 1" by (simp add: CommonFish_new_fields)
  have h: "\<not> c_spawnLocked ?c" "(0.01::real) \<noteq> 0" "c_turnCooldown ?c = 0"
    "c_x ?c + c_dir ?c * c_speed ?c * 0.01 > c_xMax ?c"
    by (simp_all add: d0 CommonFish_new_fields clamp_def)
  note u = CommonFish_update_at_right [OF h, of 0]
  have cd: "0.01 * real (length [0.01, 0.02, 0.03, 0.04 :: real])
              < c_turnCooldown (CommonFish_update 0.01 0 ?c)"
    unfolding u(2) by simp
  have pos: "(0::real) < 0.01" by simp
  have rest: "dir_trace 0.01 (CommonFish_update 0.01 0 ?c) [0.01, 0.02, 0.03, 0.04]
          = replicate (Suc (length [0.01, 0.02, 0.03, 0.04 :: real]))
              (c_dir (CommonFish_update 0.01 0 ?c))"
    using pos cd by (rule dir_trace_constant)
  have a: "dir_trace 0.01 ?c [0, 0.01, 0.02, 0.03, 0.04] = [1, - 1, - 1, - 1, - 1, - 1]"
    unfolding dir_trace.simps(2) [of "0.01" ?c 0] rest d0 u(1) by simp
  have b: "changes (dir_trace 0.01 ?c [0, 0.01, 0.02, 0.03, 0.04]) \<le> 1"
    by (rule flip_debounced) simp_all
  show ?thesis using a b by (rule conjI)
qed


section \<open>The school leader is ticked by every member\<close>

lemma vlen_zero: "vlen x 0 = \<bar>x\<bar>"
  by (simp add: vlen_def)

lemma shoal_a_store: "snd shoal_a = [''shoal'' \<mapsto> shoal0]"
  by (simp add: SchoolingFish_new_def Let_def SchoolingFish_bounds_keeps
      SchoolingFish_applyFacingNow_keeps getSchool_def School_new_def cong: let_weak_cong)

lemma shoal_b_store: "snd shoal_b = [''shoal'' \<mapsto> shoal0]"
  by (simp add: SchoolingFish_new_def Let_def SchoolingFish_bounds_keeps
      SchoolingFish_applyFacingNow_keeps getSchool_def School_new_def cong: let_weak_cong)

lemma shoal_c_store: "snd shoal_c = [''shoal'' \<mapsto> shoal0]"
  by (simp add: SchoolingFish_new_def Let_def SchoolingFish_bounds_keeps
      SchoolingFish_applyFacingNow_keeps getSchool_def School_new_def cong: let_weak_cong)

lemma SchoolingFish_new_id:
  "m_schoolId (fst (SchoolingFish_new opts rnd st))
     = (if so_schoolId opts = [] then ''school_default'' else so_schoolId opts)"
  by (simp add: SchoolingFish_new_def Let_def SchoolingFish_bounds_keeps
      SchoolingFish_applyFacingNow_keeps cong: let_weak_cong)

lemma SchoolingFish_update_store:
  assumes "dt \<noteq> 0" and "st (m_schoolId m) = Some s"
  shows "snd (SchoolingFish_update dt t r (m, st)) = st(m_schoolId m \<mapsto> tickSchool dt r s)"
  using assms by (simp add: SchoolingFish_update_def Let_def)

lemma School_frame_ticks:
  assumes "dt \<noteq> 0" and "\<forall>mr \<in> set ms. m_schoolId (fst mr) = k" and "st k = Some s"
  shows "snd (School_frame dt t ms st) k = Some (ticks dt (map snd ms) s)"
  using assms(2) assms(3)
proof (induction ms arbitrary: st s)
  case Nil
  then show ?case by simp
next
  case (Cons mr ms)
  have k: "m_schoolId (fst mr) = k" using Cons.prems(1) by simp
  have st': "snd (SchoolingFish_update dt t (snd mr) (fst mr, st)) = st(k \<mapsto> tickSchool dt (snd mr) s)"
    using SchoolingFish_update_store [OF assms(1), of st "fst mr" s t "snd mr"] k Cons.prems(2)
    by simp
  have "snd (School_frame dt t ms (st(k \<mapsto> tickSchool dt (snd mr) s))) k
          = Some (ticks dt (map snd ms) (tickSchool dt (snd mr) s))"
  proof (rule Cons.IH)
    show "\<forall>mr \<in> set ms. m_schoolId (fst mr) = k" using Cons.prems(1) by simp
    show "(st(k \<mapsto> tickSchool dt (snd mr) s)) k = Some (tickSchool dt (snd mr) s)" by simp
  qed
  then show ?case by (simp add: Let_def st')
qed

text \<open>
  Claim C1, as the code has it. \<open>update\<close> of every member calls \<open>_tickSchool\<close> on
  the school of its id, so a frame with non-zero \<open>dt\<close> that updates the members
  \<open>ms\<close> of one school ticks the leader once per member, each tick starting from the
  state the previous one left: with \<open>n\<close> members the leader is ticked \<open>n\<close> times.
\<close>

theorem leader_ticked_per_member:
  assumes "dt \<noteq> 0" and "\<forall>mr \<in> set ms. m_schoolId (fst mr) = k" and "st k = Some s"
  shows "snd (School_frame dt t ms st) k = Some (ticks dt (map snd ms) s)"
  using assms by (rule School_frame_ticks)

lemma tick1:
  "tickSchool 1 quiet_tick shoal0
     = shoal0\<lparr> sc_needsRespawn := False, sc_lx := 27 / 50, sc_ly := 0, sc_lvx := 27 / 50,
               sc_lvy := 0, sc_timer := 3, sc_tx := 532 / 625, sc_ty := 0 \<rparr>"
  by (simp add: tickSchool_def pickNewTarget_def School_topY_def Let_def clamp_def lerp_def
      or_else_def Aquarium_new_def vlen_zero cong: let_weak_cong)

lemma tick2:
  "tickSchool 1 quiet_tick
     (shoal0\<lparr> sc_needsRespawn := False, sc_lx := 27 / 50, sc_ly := 0, sc_lvx := 27 / 50,
               sc_lvy := 0, sc_timer := 3, sc_tx := 532 / 625, sc_ty := 0 \<rparr>)
     = shoal0\<lparr> sc_needsRespawn := False, sc_lx := 58131 / 68750, sc_ly := 0,
               sc_lvx := 10503 / 34375,
               sc_lvy := 0, sc_timer := 2, sc_tx := 532 / 625, sc_ty := 0 \<rparr>"
  by (simp add: tickSchool_def pickNewTarget_def School_topY_def Let_def clamp_def lerp_def
      or_else_def Aquarium_new_def vlen_zero cong: let_weak_cong)

lemma tick3:
  "tickSchool 1 quiet_tick
     (shoal0\<lparr> sc_needsRespawn := False, sc_lx := 58131 / 68750, sc_ly := 0,
               sc_lvx := 10503 / 34375,
               sc_lvy := 0, sc_timer := 2, sc_tx := 532 / 625, sc_ty := 0 \<rparr>)
     = shoal0\<lparr> sc_needsRespawn := False, sc_lx := 123687 / 137500, sc_ly := 0,
               sc_lvx := 27 / 500,
               sc_lvy := 0, sc_timer := 1, sc_tx := 532 / 625, sc_ty := 0 \<rparr>"
  by (simp add: tickSchool_def pickNewTarget_def School_topY_def Let_def clamp_def lerp_def
      or_else_def Aquarium_new_def vlen_zero cong: let_weak_cong)

lemma shoal_ids:
  "\<forall>mr \<in> set [(fst shoal_a, quiet_tick), (fst shoal_b, quiet_tick), (fst shoal_c, quiet_tick)].
     m_schoolId (fst mr) = ''shoal''"
  by (simp add: SchoolingFish_new_id)

text \<open>
  Three members share the school \<open>shoal\<close> and one frame of one second updates them.
  One tick would leave the leader at \<open>x = 0.54\<close>; the frame leaves it at
  \<open>x = 123687 / 137500\<close>, where three ticks take it.
\<close>

theorem leader_ticked_once_counterexample:
  "map_option sc_lx (map_option (tickSchool 1 quiet_tick) (snd shoal_c ''shoal'')) = Some (27 / 50)
   \<and> map_option sc_lx
        (snd (School_frame 1 0
           [(fst shoal_a, quiet_tick), (fst shoal_b, quiet_tick), (fst shoal_c, quiet_tick)]
           (snd shoal_c)) ''shoal'') = Some (123687 / 137500)
   \<and> (27 / 50 :: real) \<noteq> 123687 / 137500"
proof -
  have s: "snd shoal_c ''shoal'' = Some shoal0" by (simp only: shoal_c_store fun_upd_same)
  have one: "(1::real) \<noteq> 0" by simp
  have a: "map_option sc_lx (map_option (tickSchool 1 quiet_tick) (snd shoal_c ''shoal''))
             = Some (27 / 50)"
    unfolding s option.map tick1 by simp
  have "snd (School_frame 1 0
           [(fst shoal_a, quiet_tick), (fst shoal_b, quiet_tick), (fst shoal_c, quiet_tick)]
           (snd shoal_c)) ''shoal''
          = Some (ticks 1 (map snd [(fst shoal_a, quiet_tick), (fst shoal_b, quiet_tick),
                                    (fst shoal_c, quiet_tick)]) shoal0)"
    using one shoal_ids s by (rule School_frame_ticks)
  then have b: "map_option sc_lx
        (snd (School_frame 1 0
           [(fst shoal_a, quiet_tick), (fst shoal_b, quiet_tick), (fst shoal_c, quiet_tick)]
           (snd shoal_c)) ''shoal'') = Some (123687 / 137500)"
    unfolding list.map snd_conv ticks.simps tick1 tick2 tick3 option.map by simp
  have c: "(27 / 50 :: real) \<noteq> 123687 / 137500" by simp
  show ?thesis using a b c by (intro conjI)
qed

text \<open>The witness: the same frame is three ticks of the school.\<close>

theorem leader_ticked_per_member_witness:
  "snd (School_frame 1 0
      [(fst shoal_a, quiet_tick), (fst shoal_b, quiet_tick), (fst shoal_c, quiet_tick)]
      (snd shoal_c)) ''shoal''
   = Some (tickSchool 1 quiet_tick (tickSchool 1 quiet_tick (tickSchool 1 quiet_tick shoal0)))"
proof -
  have s: "snd shoal_c ''shoal'' = Some shoal0" by (simp only: shoal_c_store fun_upd_same)
  have one: "(1::real) \<noteq> 0" by simp
  have "snd (School_frame 1 0
           [(fst shoal_a, quiet_tick), (fst shoal_b, quiet_tick), (fst shoal_c, quiet_tick)]
           (snd shoal_c)) ''shoal''
          = Some (ticks 1 (map snd [(fst shoal_a, quiet_tick), (fst shoal_b, quiet_tick),
                                    (fst shoal_c, quiet_tick)]) shoal0)"
    using one shoal_ids s by (rule leader_ticked_per_member)
  then show ?thesis unfolding list.map snd_conv ticks.simps .
qed


section \<open>The coin balance\<close>

lemma setCoins_nat: "\<exists>n::nat. sh_coins (setCoins c s) = real n"
proof (cases "0 \<le> \<lfloor>c\<rfloor>")
  case True
  then have "sh_coins (setCoins c s) = real (nat \<lfloor>c\<rfloor>)" by (simp add: setCoins_def)
  then show ?thesis by blast
next
  case False
  then have "sh_coins (setCoins c s) = real 0" by (simp add: setCoins_def max_def)
  then show ?thesis by blast
qed

lemma card_click_coins:
  "(\<exists>n::nat. sh_coins s = real n) \<Longrightarrow> \<exists>n::nat. sh_coins (fst (card_click item s)) = real n"
  by (auto simp add: card_click_def addCoins_def Let_def setCoins_nat split: option.splits)

lemma reachable_coins: "shop_reachable s \<Longrightarrow> \<exists>n::nat. sh_coins s = real n"
proof (induction rule: shop_reachable.induct)
  case start
  have "sh_coins game_shop = real 30" by (simp add: game_shop_def)
  then show ?case by blast
next
  case (set s c)
  show ?case by (rule setCoins_nat)
next
  case (add s d)
  show ?case by (simp add: addCoins_def Let_def setCoins_nat)
next
  case (click s item)
  show ?case using click.IH by (rule card_click_coins)
next
  case (switch s tb)
  then show ?case by simp
qed

text \<open>
  Claim C9. Every state of the shop of the game has a balance that is a natural number,
  and on the buy tab a click on an item that costs more than the balance returns the
  state as it is; its only effect is the label \<open>nope\<close> on the button: no coins change,
  and neither the purchase callback nor the buy event is among the effects.
\<close>

theorem shop_coins_nonneg_integer:
  assumes "shop_reachable s"
  shows "(\<exists>n::nat. sh_coins s = real n)
       \<and> (sh_tab s = Buy \<and> max 0 (case it_price it of Some p \<Rightarrow> p | None \<Rightarrow> 0) > sh_coins s
            \<longrightarrow> card_click (Some it) s = (s, [Label ''nope'']))"
  using reachable_coins [OF assms] by (simp add: card_click_def Let_def)

text \<open>
  The witness: with the 30 coins of the start, a click on the schooling egg (35 coins)
  changes nothing.
\<close>

theorem shop_coins_nonneg_integer_witness:
  "shop_reachable game_shop
   \<and> (\<exists>n::nat. sh_coins game_shop = real n)
   \<and> card_click (Some \<lparr> it_id = ''egg_schooling'', it_price = Some 35 \<rparr>) game_shop
       = (game_shop, [Label ''nope''])"
  using shop_coins_nonneg_integer [OF shop_reachable.start, of "\<lparr> it_id = ''egg_schooling'', it_price = Some 35 \<rparr>"]
    shop_reachable.start
  by (simp add: game_shop_def)

section \<open>Rebuilding eggs: position and bounds\<close>



lemma Egg_setEnvironment_keeps:
  "e_landed (Egg_setEnvironment w h aq sd e) = e_landed e"
  "e_age (Egg_setEnvironment w h aq sd e) = e_age e"
  "e_didHatch (Egg_setEnvironment w h aq sd e) = e_didHatch e"
  "e_dead (Egg_setEnvironment w h aq sd e) = e_dead e"
  "e_popping (Egg_setEnvironment w h aq sd e) = e_popping e"
  "e_onHatch (Egg_setEnvironment w h aq sd e) = e_onHatch e"
  "e_hatchAt (Egg_setEnvironment w h aq sd e) = e_hatchAt e"
  "e_vx (Egg_setEnvironment w h aq sd e) = e_vx e"
  "e_vy (Egg_setEnvironment w h aq sd e) = e_vy e"
  "e_phase (Egg_setEnvironment w h aq sd e) = e_phase e"
  "e_sandSinkFactor (Egg_setEnvironment w h aq sd e) = e_sandSinkFactor e"
  "e_r (Egg_setEnvironment w h aq sd e) = e_r e"
  by (simp_all add: Egg_setEnvironment_def Let_def Egg_applyPos_keeps Egg_syncEnv_keeps
      cong: let_weak_cong)




lemma Egg_new_onHatch: "e_onHatch (Egg_new opts rnd) = o_onHatch opts"
  by (simp add: Egg_new_def Let_def Egg_applyPos_keeps Egg_syncEnv_keeps Egg_spawnDefault_def
      cong: let_weak_cong)

lemma rebuildEgg_keeps:
  "e_vx (rebuildEgg md w h aq sd rnd old) = e_vx old"
  "e_vy (rebuildEgg md w h aq sd rnd old) = e_vy old"
  "e_phase (rebuildEgg md w h aq sd rnd old) = e_phase old"
  "e_landed (rebuildEgg md w h aq sd rnd old) = e_landed old"
  "e_age (rebuildEgg md w h aq sd rnd old) = e_age old"
  "e_hatchAt (rebuildEgg md w h aq sd rnd old) = e_hatchAt old"
  "e_didHatch (rebuildEgg md w h aq sd rnd old) = e_didHatch old"
  "e_dead (rebuildEgg md w h aq sd rnd old) = e_dead old"
  "e_sandSinkFactor (rebuildEgg md w h aq sd rnd old) = e_sandSinkFactor old"
  "e_onHatch (rebuildEgg md w h aq sd rnd old) = e_onHatch old"
  by (simp_all add: rebuildEgg_def Let_def Egg_snapshot_def Egg_applyPos_keeps
      Egg_setEnvironment_keeps Egg_new_onHatch cong: let_weak_cong)





section \<open>The program state after a rebuild, a mode switch and a resize\<close>


lemma map_single: "length xs = Suc 0 \<Longrightarrow> map F xs = [F (xs ! 0)]"
  by (cases xs) simp_all


lemma rebuildScene_empty:
  "a_eggs s = [] \<Longrightarrow> a_hatchFish s = [] \<Longrightarrow>
   rebuildScene er fr now s
     = s\<lparr> a_aquarium := Some (Aquarium_new (a_worldW s) (a_worldH s)),
           a_sand := Some (Sand_new (a_worldW s) (a_worldH s)) \<rparr>"
  by (simp add: rebuildScene_def rebuildEggVisualsForMode_def rebuildHatchedVisualsForMode_def
      Let_def)

lemma rebuildScene_env:
  "a_mode (rebuildScene er fr now s) = a_mode s"
  "a_worldW (rebuildScene er fr now s) = a_worldW s"
  "a_worldH (rebuildScene er fr now s) = a_worldH s"
  "a_lastWorldH (rebuildScene er fr now s) = a_lastWorldH s"
  "a_fishIdCounter (rebuildScene er fr now s) = a_fishIdCounter s"
  "a_aquarium (rebuildScene er fr now s) = Some (Aquarium_new (a_worldW s) (a_worldH s))"
  "a_sand (rebuildScene er fr now s) = Some (Sand_new (a_worldW s) (a_worldH s))"
  by (simp_all add: rebuildScene_def Let_def)

lemma rebuildScene_lists:
  "a_eggs (rebuildScene er fr now s)
     = map (\<lambda>i. Egg_setEnvironment (a_worldW s) (a_worldH s)
                    (Some (Aquarium_new (a_worldW s) (a_worldH s)))
                    (Some (Sand_new (a_worldW s) (a_worldH s)))
                    (rebuildEgg (a_mode s) (a_worldW s) (a_worldH s)
                       (Some (Aquarium_new (a_worldW s) (a_worldH s)))
                       (Some (Sand_new (a_worldW s) (a_worldH s))) (er i) (a_eggs s ! i)))
           [0 ..< length (a_eggs s)]"
  "a_hatchFish (rebuildScene er fr now s)
     = map (\<lambda>i. hatch_setBounds (a_worldW s) (a_worldH s)
                    (Some (Aquarium_new (a_worldW s) (a_worldH s)))
                    (rebuildHatched (a_mode s) (a_worldW s) (a_worldH s)
                       (Some (Aquarium_new (a_worldW s) (a_worldH s))) now
                       (fst (fr i)) (snd (fr i)) (a_hatchFish s ! i)))
           [0 ..< length (a_hatchFish s)]"
  by (simp_all add: rebuildScene_def rebuildEggVisualsForMode_def
      rebuildHatchedVisualsForMode_def Let_def comp_def)

lemma toggleMode_env:
  "a_mode (toggleMode md er fr now s) = md"
  "a_worldW (toggleMode md er fr now s) = a_worldW s"
  "a_worldH (toggleMode md er fr now s) = a_worldH s"
  "a_lastWorldH (toggleMode md er fr now s) = a_lastWorldH s"
  "a_fishIdCounter (toggleMode md er fr now s) = a_fishIdCounter s"
  "a_aquarium (toggleMode md er fr now s) = Some (Aquarium_new (a_worldW s) (a_worldH s))"
  "a_sand (toggleMode md er fr now s) = Some (Sand_new (a_worldW s) (a_worldH s))"
  by (simp_all add: toggleMode_def Let_def rebuildScene_env)

lemma toggleMode_fish:
  "a_hatchFish (toggleMode md er fr now s)
     = map (\<lambda>i. retargetGrowthForMode now
                   (hatch_setBounds (a_worldW s) (a_worldH s)
                      (Some (Aquarium_new (a_worldW s) (a_worldH s)))
                      (rebuildHatched md (a_worldW s) (a_worldH s)
                         (Some (Aquarium_new (a_worldW s) (a_worldH s))) now
                         (fst (fr i)) (snd (fr i)) (a_hatchFish s ! i))))
           [0 ..< length (a_hatchFish s)]"
  by (simp add: toggleMode_def Let_def rebuildScene_lists comp_def)





section \<open>A fish rebuilt for the prototype mode\<close>


lemma Primitive_applyFacingNow_keeps:
  "f_class (Primitive_applyFacingNow obj) = f_class obj"
  "f_x (Primitive_applyFacingNow obj) = f_x obj"
  "f_y (Primitive_applyFacingNow obj) = f_y obj"
  "f_vx (Primitive_applyFacingNow obj) = f_vx obj"
  "f_vy (Primitive_applyFacingNow obj) = f_vy obj"
  "f_dir (Primitive_applyFacingNow obj) = f_dir obj"
  "f_phase (Primitive_applyFacingNow obj) = f_phase obj"
  "f_gx (Primitive_applyFacingNow obj) = f_gx obj"
  "f_gy (Primitive_applyFacingNow obj) = f_gy obj"
  "f_aquarium (Primitive_applyFacingNow obj) = f_aquarium obj"
  by (simp_all add: Primitive_applyFacingNow_def Let_def split: option.split prod.split)

lemma Primitive_yBounds_keeps:
  "f_class (Primitive_yBounds h obj) = f_class obj"
  "f_x (Primitive_yBounds h obj) = f_x obj"
  "f_y (Primitive_yBounds h obj) = f_y obj"
  "f_vx (Primitive_yBounds h obj) = f_vx obj"
  "f_vy (Primitive_yBounds h obj) = f_vy obj"
  "f_dir (Primitive_yBounds h obj) = f_dir obj"
  "f_phase (Primitive_yBounds h obj) = f_phase obj"
  "f_gx (Primitive_yBounds h obj) = f_gx obj"
  "f_gy (Primitive_yBounds h obj) = f_gy obj"
  "f_root (Primitive_yBounds h obj) = f_root obj"
  by (simp_all add: Primitive_yBounds_def)

lemma PrimitiveFish_new_fields:
  "f_class (PrimitiveFish_new w h aq z ini) = PrimitiveFish"
  "f_x (PrimitiveFish_new w h aq z ini) = Some 0"
  "f_y (PrimitiveFish_new w h aq z ini) = Some 0"
  "f_vx (PrimitiveFish_new w h aq z ini)
     = Some ((if i_side ini < 0.5 then - 1 else 1) * (0.12 + i_speed ini * 0.10))"
  "f_dir (PrimitiveFish_new w h aq z ini)
     = Some (if (if i_side ini < 0.5 then - 1 else 1) * (0.12 + i_speed ini * 0.10) \<ge> 0
             then 1 else - 1)"
  "f_phase (PrimitiveFish_new w h aq z ini) = Some (i_phase ini * pi * 2)"
  by (simp_all add: PrimitiveFish_new_def Let_def Primitive_applyFacingNow_keeps
      Primitive_yBounds_keeps cong: let_weak_cong)

lemma setRootScale_keeps:
  "f_class (setRootScale v obj) = f_class obj"
  "f_x (setRootScale v obj) = f_x obj"
  "f_y (setRootScale v obj) = f_y obj"
  "f_vx (setRootScale v obj) = f_vx obj"
  "f_dir (setRootScale v obj) = f_dir obj"
  "f_gx (setRootScale v obj) = f_gx obj"
  "f_gy (setRootScale v obj) = f_gy obj"
  by (simp_all add: setRootScale_def Let_def split: option.split prod.split)

lemma retargetGrowthForMode_obj:
  assumes "hf_obj hf = Some fo"
  shows "\<exists>fn. hf_obj (retargetGrowthForMode now hf) = Some fn
           \<and> f_class fn = f_class fo \<and> f_x fn = f_x fo \<and> f_y fn = f_y fo
           \<and> f_vx fn = f_vx fo \<and> f_dir fn = f_dir fo
           \<and> f_gx fn = f_gx fo \<and> f_gy fn = f_gy fo"
  using assms
  by (simp add: retargetGrowthForMode_def Let_def setRootScale_keeps
      split: option.split prod.split)

lemma Fish_restore_primitive:
  assumes "f_class obj = PrimitiveFish" "f_x obj \<noteq> None" "f_y obj \<noteq> None"
  shows "f_class (Fish_restore snap obj) = PrimitiveFish"
    and "f_x (Fish_restore snap obj) = Some (fs_x snap)"
    and "f_y (Fish_restore snap obj) = Some (fs_y snap)"
    and "f_gx (Fish_restore snap obj) = fs_gx snap"
    and "f_gy (Fish_restore snap obj) = fs_gy snap"
    and "f_vx obj = Some v \<Longrightarrow>
         f_vx (Fish_restore snap obj) = Some (if fs_hasVx snap then fs_vx snap else v)"
    and "f_vx obj = Some v \<Longrightarrow>
         f_dir (Fish_restore snap obj)
           = Some (if (if fs_hasVx snap then fs_vx snap else v) \<ge> 0 then 1 else - 1)"
  using assms
  by (simp_all add: Fish_restore_def Let_def Primitive_applyFacingNow_keeps
      split: option.split cong: let_weak_cong)

lemma rebuildHatched_prototype:
  assumes "hf_obj hf = Some fo"
  shows "\<exists>fn. hf_obj (rebuildHatched Prototype w h aq now ini rp hf) = Some fn
           \<and> f_class fn = PrimitiveFish
           \<and> f_x fn = Some (case f_x fo of Some v \<Rightarrow> v | None \<Rightarrow> f_gx fo)
           \<and> f_y fn = Some (case f_y fo of Some v \<Rightarrow> v | None \<Rightarrow> f_gy fo)
           \<and> f_gx fn = f_gx fo \<and> f_gy fn = f_gy fo
           \<and> f_vx fn = Some (case f_vx fo of
                             Some v \<Rightarrow> v
                           | None \<Rightarrow> (if i_side ini < 0.5 then - 1 else 1)
                                       * (0.12 + i_speed ini * 0.10))
           \<and> f_dir fn = Some (if (case f_vx fo of
                                     Some v \<Rightarrow> v
                                   | None \<Rightarrow> (if i_side ini < 0.5 then - 1 else 1)
                                               * (0.12 + i_speed ini * 0.10)) \<ge> 0
                              then 1 else - 1)"
proof -
  let ?z = "case hf_spec hf of None \<Rightarrow> None | Some sp \<Rightarrow> sp_zLayer sp"
  let ?obj = "(Fish_new PrimitiveFish w h aq ?z ini)\<lparr> f_fishId := Some (hf_id hf) \<rparr>"
  let ?snap = "Fish_snapshot rp fo"
  let ?r = "Fish_restore ?snap ?obj"
  let ?v = "(if i_side ini < 0.5 then - 1 else 1) * (0.12 + i_speed ini * 0.10) :: real"
  have n: "f_class ?obj = PrimitiveFish" "f_x ?obj \<noteq> None" "f_y ?obj \<noteq> None"
    "f_vx ?obj = Some ?v"
    by (simp_all add: Fish_new_def PrimitiveFish_new_fields)
  have e: "rebuildHatched Prototype w h aq now ini rp hf
             = retargetGrowthForMode now (hf\<lparr> hf_obj := Some ?r \<rparr>)"
    using assms by (simp add: rebuildHatched_def Let_def)
  have o: "hf_obj (hf\<lparr> hf_obj := Some ?r \<rparr>) = Some ?r" by simp
  from retargetGrowthForMode_obj [OF o, of now] obtain fn where
    fn: "hf_obj (retargetGrowthForMode now (hf\<lparr> hf_obj := Some ?r \<rparr>)) = Some fn"
      "f_class fn = f_class ?r" "f_x fn = f_x ?r" "f_y fn = f_y ?r" "f_vx fn = f_vx ?r"
      "f_dir fn = f_dir ?r" "f_gx fn = f_gx ?r" "f_gy fn = f_gy ?r"
    by blast
  note r = Fish_restore_primitive [where snap = ?snap and obj = ?obj, OF n(1) n(2) n(3)]
  have s: "fs_x ?snap = (case f_x fo of Some v \<Rightarrow> v | None \<Rightarrow> f_gx fo)"
    "fs_y ?snap = (case f_y fo of Some v \<Rightarrow> v | None \<Rightarrow> f_gy fo)"
    "fs_gx ?snap = f_gx fo" "fs_gy ?snap = f_gy fo"
    "(if fs_hasVx ?snap then fs_vx ?snap else ?v) = (case f_vx fo of Some v \<Rightarrow> v | None \<Rightarrow> ?v)"
    by (simp_all add: Fish_snapshot_def split: option.split)
  show ?thesis
    unfolding e
    apply (rule exI [of _ fn])
    unfolding fn r(1-5) r(6) [OF n(4)] r(7) [OF n(4)] s
    by simp
qed

lemma hatch_setBounds_primitive:
  assumes "hf_obj hf = Some fo" "f_class fo = PrimitiveFish"
  shows "\<exists>fn. hf_obj (hatch_setBounds w h aq hf) = Some fn
           \<and> f_class fn = PrimitiveFish \<and> f_x fn = f_x fo \<and> f_y fn = f_y fo
           \<and> f_gx fn = f_gx fo \<and> f_gy fn = f_gy fo
           \<and> f_vx fn = f_vx fo \<and> f_dir fn = f_dir fo"
  using assms
  by (simp add: hatch_setBounds_def Fish_setBounds_def Primitive_yBounds_def)


section \<open>The example states, evaluated\<close>

lemma loaded_state:
  "loaded = \<lparr> a_mode = Prototype, a_worldW = 4.4, a_worldH = 2.2, a_lastWorldH = 2.2,
       a_aquarium = Some (Aquarium_new 4.4 2.2), a_sand = Some (Sand_new 4.4 2.2),
       a_eggs = [], a_hatchFish = [], a_fishIdCounter = 1 \<rparr>"
  by (simp add: resize_def app_start_def rebuildScene_empty resize_worldW_def resize_worldH_def
      Let_def)

lemmas fish_defs =
  spawnHatchFish_def randPick_def specByType_def class_of_kind_def Fish_new_def
  PrimitiveFish_new_def PatrolFish_new_def Primitive_yBounds_def Primitive_applyFacingNow_def
  Fish_syncBounds_def set_rect_def CommonFish_rect_def spawnInitialPosition_def
  spawnFractions_def PatrolFish_bobAmp_def spawnHatchFish_entry_def clampYForFish_def
  displayNameForUrl_def clamp_def lerp_def

lemmas rebuild_defs =
  hatch_setBounds_def Fish_setBounds_def Fish_clampToBounds_def rebuildHatched_def
  resize_fishScale_def resize_scaleK_def resize_worldH_def resize_worldW_def
  Fish_snapshot_def Fish_restore_def retargetGrowthForMode_def setRootScale_def
  growthScale_def growthFraction_def smoothstep_def






lemma full_loaded:
  "toggleMode Full egg_draws fish_draws 5 loaded
     = \<lparr> a_mode = Full, a_worldW = 4.4, a_worldH = 2.2, a_lastWorldH = 2.2,
         a_aquarium = Some (Aquarium_new 4.4 2.2), a_sand = Some (Sand_new 4.4 2.2),
         a_eggs = [], a_hatchFish = [], a_fishIdCounter = 1 \<rparr>"
  unfolding loaded_state by (simp add: toggleMode_def rebuildScene_empty Let_def)

lemma full_tank_env:
  "a_worldW full_tank = 4.4"
  "a_worldH full_tank = 2.2"
  unfolding full_loaded
  by (simp_all add: spawnHatchFish_def randPick_def specByType_def class_of_kind_def Let_def)

lemma hatched_carp:
  "a_hatchFish full_tank
     = [\<lparr> hf_id = 1, hf_eggType = ''basic'',
          hf_obj = Some \<lparr> f_class = CommonFish,
                          f_aquarium = Some (Aquarium_new 4.4 2.2),
                          f_x = Some 0.3, f_y = Some (- 0.3336),
                          f_vx = None, f_vy = None,
                          f_dir = Some 1, f_phase = Some pi,
                          f_xMin = Some (- 1.728), f_xMax = Some 1.728,
                          f_yMin = - 0.36, f_yMax = 0.932,
                          f_bobAmp = 0.0264,
                          f_spawnLocked = Some True, f_spawnLockTime = Some 0.35,
                          f_gx = 0.3, f_gy = - 0.3336, f_gz = 0.79,
                          f_root = None, f_fishId = Some 1 \<rparr>,
          hf_spec = Some carp_spec,
          hf_bornAt = 12, hf_growDur = 10, hf_startF = 0.14, hf_endF = 1,
          hf_adultRootScale = None, hf_baseX = 0.3, hf_baseY = - 0.3336,
          hf_liftDur = 2.2, hf_liftDist = 0.22, hf_liftStart = None, hf_liftDone = False,
          hf_settleUntil = None, hf_settleExtra = 0.35,
          hf_modelUrl = ''assets/fish/carp.glb'', hf_displayName = ''carp'' \<rparr>]"
  unfolding full_loaded
  by (simp add: fish_defs Aquarium_new_def growthDurationForEggType_def Let_def
      cong: let_weak_cong)

lemma carp_as_primitive:
  "a_hatchFish (toggleMode Prototype egg_draws fish_draws 20 full_tank)
     = [\<lparr> hf_id = 1, hf_eggType = ''basic'',
          hf_obj = Some \<lparr> f_class = PrimitiveFish,
                          f_aquarium = Some (Aquarium_new 4.4 2.2),
                          f_x = Some 0.3, f_y = Some (- 0.3336),
                          f_vx = Some (- 0.17), f_vy = Some 0,
                          f_dir = Some (- 1), f_phase = Some pi,
                          f_xMin = None, f_xMax = None, f_yMin = - 0.832, f_yMax = 0.892,
                          f_bobAmp = 0.02,
                          f_spawnLocked = None, f_spawnLockTime = None,
                          f_gx = 0.3, f_gy = - 0.3336, f_gz = 0.79,
                          f_root = Some (0.8291195136, - 0.8291195136, 0.8291195136),
                          f_fishId = Some 1 \<rparr>,
          hf_spec = Some carp_spec,
          hf_bornAt = 12, hf_growDur = 10, hf_startF = 0.14, hf_endF = 1,
          hf_adultRootScale = None, hf_baseX = 0.3, hf_baseY = - 0.3336,
          hf_liftDur = 2.2, hf_liftDist = 0.22, hf_liftStart = None, hf_liftDone = False,
          hf_settleUntil = None, hf_settleExtra = 0.35,
          hf_modelUrl = ''assets/fish/carp.glb'', hf_displayName = ''carp'' \<rparr>]"
  unfolding toggleMode_fish full_tank_env hatched_carp
  by (simp add: rebuild_defs fish_defs Aquarium_new_def Let_def cong: let_weak_cong)


section \<open>Mode toggle: the direction of a fish\<close>

text \<open>
  Claim C5, where the code departs from it. When the mode is switched to the prototype
  mode, a fish whose object has no \<open>_vx\<close> (every full-mode class but
  \<open>SchoolingFish\<close>) is replaced by a \<open>PrimitiveFish\<close> that keeps the velocity its
  constructor drew and takes its direction from the sign of that velocity. Neither
  depends on the direction of the old object.
\<close>

theorem toggle_loses_direction:
  assumes "i < length (a_hatchFish s)"
    and "hf_obj (a_hatchFish s ! i) = Some fo"
    and "f_vx fo = None"
    and "v = (if i_side (fst (fr i)) < 0.5 then - 1 else 1) * (0.12 + i_speed (fst (fr i)) * 0.10)"
  shows "\<exists>fn. hf_obj (a_hatchFish (toggleMode Prototype er fr now s) ! i) = Some fn
           \<and> f_class fn = PrimitiveFish
           \<and> f_vx fn = Some v
           \<and> f_dir fn = Some (if v \<ge> 0 then 1 else - 1)"
proof -
  let ?ww = "a_worldW s"
  let ?hh = "a_worldH s"
  let ?aq = "Some (Aquarium_new ?ww ?hh)"
  let ?old = "a_hatchFish s ! i"
  let ?rb = "rebuildHatched Prototype ?ww ?hh ?aq now (fst (fr i)) (snd (fr i)) ?old"
  let ?rc = "hatch_setBounds ?ww ?hh ?aq ?rb"
  have n: "a_hatchFish (toggleMode Prototype er fr now s) ! i = retargetGrowthForMode now ?rc"
    unfolding toggleMode_fish using assms(1) by simp
  from rebuildHatched_prototype [OF assms(2), of ?ww ?hh ?aq now "fst (fr i)" "snd (fr i)"]
  obtain f1 where f1: "hf_obj ?rb = Some f1" "f_class f1 = PrimitiveFish"
      "f_vx f1 = Some v" "f_dir f1 = Some (if v \<ge> 0 then 1 else - 1)"
    unfolding assms(3) assms(4) by auto
  from hatch_setBounds_primitive [OF f1(1) f1(2), of ?ww ?hh ?aq]
  obtain f2 where f2: "hf_obj ?rc = Some f2" "f_class f2 = PrimitiveFish"
      "f_vx f2 = f_vx f1" "f_dir f2 = f_dir f1"
    by auto
  from retargetGrowthForMode_obj [OF f2(1), of now]
  obtain f3 where f3: "hf_obj (retargetGrowthForMode now ?rc) = Some f3"
      "f_class f3 = f_class f2" "f_vx f3 = f_vx f2" "f_dir f3 = f_dir f2"
    by auto
  show ?thesis
    unfolding n
    apply (rule exI [of _ f3])
    unfolding f3 f2 f1
    by simp
qed

text \<open>
  The witness. A carp hatched in the full mode is a \<open>CommonFish\<close> that swims to the
  right. The switch to the prototype mode makes it face left with one draw of the
  constructor and right with another. The way back does restore the direction: the
  \<open>CommonFish\<close> built from the left-facing \<open>PrimitiveFish\<close> faces left although its
  constructor, with the draws that made the first carp face right, drew right.
\<close>

theorem toggle_loses_direction_witness:
  "map (\<lambda>hf. map_option (\<lambda>obj. (f_class obj, f_dir obj, f_vx obj)) (hf_obj hf))
     (a_hatchFish full_tank)
   = [Some (CommonFish, Some 1, None)]
   \<and> map (\<lambda>hf. map_option (\<lambda>obj. (f_class obj, f_dir obj, f_vx obj)) (hf_obj hf))
       (a_hatchFish (toggleMode Prototype egg_draws fish_draws 20 full_tank))
     = [Some (PrimitiveFish, Some (- 1), Some (- 0.17))]
   \<and> map (\<lambda>hf. map_option (\<lambda>obj. (f_class obj, f_dir obj, f_vx obj)) (hf_obj hf))
       (a_hatchFish (toggleMode Prototype egg_draws right_draws 20 full_tank))
     = [Some (PrimitiveFish, Some 1, Some 0.17)]
   \<and> map (\<lambda>hf. map_option (\<lambda>obj. (f_class obj, f_dir obj, f_vx obj)) (hf_obj hf))
       (a_hatchFish (toggleMode Full egg_draws fish_draws 21
          (toggleMode Prototype egg_draws fish_draws 20 full_tank)))
     = [Some (CommonFish, Some (- 1), None)]"
proof -
  let ?F = "\<lambda>hf. map_option (\<lambda>obj. (f_class obj, f_dir obj, f_vx obj)) (hf_obj hf)"
  have a: "map ?F (a_hatchFish full_tank) = [Some (CommonFish, Some 1, None)]"
    unfolding hatched_carp by simp
  have l: "0 < length (a_hatchFish full_tank)"
    unfolding hatched_carp by simp
  obtain fo where fo: "hf_obj (a_hatchFish full_tank ! 0) = Some fo" "f_vx fo = None"
    unfolding hatched_carp by simp
  have len: "length (a_hatchFish (toggleMode Prototype er fr now full_tank)) = Suc 0"
    for er fr now
    unfolding toggleMode_fish hatched_carp by simp
  from toggle_loses_direction [where er = egg_draws and fr = fish_draws and now = 20,
      OF l fo refl]
  obtain fn where fn: "hf_obj (a_hatchFish (toggleMode Prototype egg_draws fish_draws 20 full_tank) ! 0)
        = Some fn"
      "f_class fn = PrimitiveFish" "f_vx fn = Some (- 0.17)" "f_dir fn = Some (- 1)"
    by auto
  have b: "map ?F (a_hatchFish (toggleMode Prototype egg_draws fish_draws 20 full_tank))
     = [Some (PrimitiveFish, Some (- 1), Some (- 0.17))]"
    unfolding map_single [OF len] fn option.map fn by (rule refl)
  from toggle_loses_direction [where er = egg_draws and fr = right_draws and now = 20,
      OF l fo refl]
  obtain fm where fm: "hf_obj (a_hatchFish (toggleMode Prototype egg_draws right_draws 20 full_tank) ! 0)
        = Some fm"
      "f_class fm = PrimitiveFish" "f_vx fm = Some 0.17" "f_dir fm = Some 1"
    by auto
  have c: "map ?F (a_hatchFish (toggleMode Prototype egg_draws right_draws 20 full_tank))
     = [Some (PrimitiveFish, Some 1, Some 0.17)]"
    unfolding map_single [OF len] fm option.map fm by (rule refl)
  have d: "map ?F (a_hatchFish (toggleMode Full egg_draws fish_draws 21
          (toggleMode Prototype egg_draws fish_draws 20 full_tank)))
     = [Some (CommonFish, Some (- 1), None)]"
    unfolding toggleMode_fish [of Full] toggleMode_env full_tank_env carp_as_primitive
    by (simp add: rebuild_defs fish_defs Aquarium_new_def Let_def cong: let_weak_cong)
  from a b c d show ?thesis by (intro conjI)
qed


section \<open>Resize: the fish of the prototype mode\<close>




end
